theory Spec2Isabelle
  imports Complex_Main
begin

section \<open>Python strings\<close>

text \<open>
  A Python \<open>str\<close> is modelled as the list of its code points, for code points below
  256 (the range of \<^typ>\<open>char\<close>); \<open>len\<close> is \<^const>\<open>length\<close>.
\<close>

definition newline :: char where
  "newline = CHR 0x0A"

text \<open>
  \<open>str.isspace\<close> on one character. Below 256 the whitespace code points are
  \<open>0x09..0x0D\<close>, \<open>0x1C..0x1F\<close>, \<open>0x20\<close>, \<open>0x85\<close> and \<open>0xA0\<close>.
\<close>

definition isspace :: "char \<Rightarrow> bool" where
  "isspace c =
     (let n = (of_char c :: nat)
      in (9 \<le> n \<and> n \<le> 13) \<or> (28 \<le> n \<and> n \<le> 32) \<or> n = 133 \<or> n = 160)"

text \<open>\<open>s.strip()\<close>: whitespace removed at both ends.\<close>

definition strip :: "string \<Rightarrow> string" where
  "strip s = rev (dropWhile isspace (rev (dropWhile isspace s)))"

text \<open>
  \<open>text.split('\n\n')\<close>: the text is cut at every occurrence of two consecutive
  newlines, found from the left and not overlapping; the result always has at least one
  part (so the first branch of the inner \<open>case\<close> is never taken), and parts may be
  empty.
\<close>

fun split_nn :: "string \<Rightarrow> string list" where
  "split_nn [] = [[]]"
| "split_nn [c] = [[c]]"
| "split_nn (c # d # rest) =
     (if c = newline \<and> d = newline then [] # split_nn rest
      else (case split_nn (d # rest) of
              [] \<Rightarrow> [[c]]
            | part # parts \<Rightarrow> (c # part) # parts))"

section \<open>Retrieval engine: chunking\<close>

record metadata =
  source :: string
  chunk_id :: nat

record chunk =
  content :: string
  metadata :: metadata

text \<open>
  \<open>sections = [s.strip() for s in text.split('\n\n') if s.strip()]\<close>: the trimmed
  parts that are not empty.
\<close>

definition sections :: "string \<Rightarrow> string list" where
  "sections text = map strip (filter (\<lambda>s. strip s \<noteq> []) (split_nn text))"

text \<open>
  The loop \<open>for i, section in enumerate(sections)\<close> of \<open>chunk_text\<close>: \<open>i\<close> is the
  position of \<open>section\<close> in \<open>sections\<close>, and a section is appended to \<open>chunks\<close> when
  \<open>len(section) > 50\<close>.
\<close>

fun chunk_loop :: "string \<Rightarrow> nat \<Rightarrow> string list \<Rightarrow> chunk list \<Rightarrow> chunk list" where
  "chunk_loop src i [] chunks = chunks"
| "chunk_loop src i (section # rest) chunks =
     chunk_loop src (Suc i) rest
       (if 50 < length section
        then chunks @ [\<lparr>content = section, metadata = \<lparr>source = src, chunk_id = i\<rparr>\<rparr>]
        else chunks)"

text \<open>
  \<open>RAGRetriever.chunk_text(text, source, chunk_size=500)\<close>. The parameter
  \<open>chunk_size\<close> is never read by the source and is left out.
\<close>

definition chunk_text :: "string \<Rightarrow> string \<Rightarrow> chunk list" where
  "chunk_text text src = chunk_loop src 0 (sections text) []"

section \<open>Python values, exceptions and the outside world\<close>

text \<open>
  The values that travel through the program come from JSON: request bodies, tool-call
  arguments and handler results. \<open>JNull\<close> is Python's \<open>None\<close>; a \<open>dict\<close> is the list
  of its items in insertion order; a \<open>float\<close> is given by the number it stands for.
\<close>

datatype json =
    JNull
  | JBool bool
  | JInt int
  | JFloat real
  | JStr string
  | JArr "json list"
  | JObj "(string \<times> json) list"

text \<open>Truthiness, as \<open>if x\<close>, \<open>not x\<close> and \<open>x or y\<close> read it.\<close>

fun truthy :: "json \<Rightarrow> bool" where
  "truthy JNull = False"
| "truthy (JBool b) = b"
| "truthy (JInt i) = (i \<noteq> 0)"
| "truthy (JFloat r) = (r \<noteq> 0)"
| "truthy (JStr s) = (s \<noteq> [])"
| "truthy (JArr xs) = (xs \<noteq> [])"
| "truthy (JObj kvs) = (kvs \<noteq> [])"

text \<open>
  Exceptions. \<open>TypeError\<close> and \<open>AttributeError\<close> are raised by the interpreter;
  \<open>External\<close> is any exception raised inside a library or a remote service, with a
  label to tell one from another. Every handler of the source is \<open>except Exception\<close> or
  a bare \<open>except\<close>, so the class is never inspected.
\<close>

datatype exn = TypeError | AttributeError | External string

record tool_call =
  tc_id :: string
  tc_name :: string
  tc_arguments :: string

text \<open>
  \<open>response.choices[0].message\<close>: its \<open>content\<close>, a string or \<open>None\<close>, which the
  source reads only from the completion that ends the loop and hands on unchecked as the
  answer, and its \<open>tool_calls\<close>, which the source reads only from a completion that
  signals tool calls.
\<close>

record assistant_message =
  msg_content :: "string option"
  tool_calls :: "tool_call list"

text \<open>\<open>response.choices[0]\<close> of a chat completion.\<close>

record completion =
  finish_reason :: string
  choice_message :: assistant_message

text \<open>
  An element of the \<open>messages\<close> list: a \<open>dict\<close>, or the message object of a
  completion appended as it is.
\<close>

datatype chat_item = Dict json | MessageObj assistant_message

text \<open>
  The libraries, the remote provider and the process environment, as functions of what
  they are called with: \<open>str(e)\<close>, \<open>json.loads\<close>, \<open>json.dumps\<close>, the provider's
  embedding and chat-completion endpoints (the declared tools are a constant of the
  program, so a completion depends on the messages; in one run of \<open>chat\<close> the list of
  messages grows with every round, so the model may answer each round differently), the
  store's similarity measure,
  \<open>os.getenv\<close>, \<open>create_client\<close> (\<open>Some e\<close> when it raises \<open>e\<close>), and the
  two files read at startup (the text extracted from each page of the PDF; the
  contents of the text file).
\<close>

record env =
  str_exn :: "exn \<Rightarrow> string"
  json_loads :: "string \<Rightarrow> exn + json"
  json_dumps :: "json \<Rightarrow> string"
  embeddings_create :: "json \<Rightarrow> exn + real list"
  completions_create :: "chat_item list \<Rightarrow> exn + completion"
  similarity :: "real list \<Rightarrow> real list \<Rightarrow> real"
  getenv :: "string \<Rightarrow> string option"
  create_client :: "string \<Rightarrow> string \<Rightarrow> exn option"
  resume_pdf :: "exn + string list"
  summary_txt :: "exn + string"

record document =
  doc_content :: string
  doc_metadata :: metadata
  doc_embedding :: "real list"

record conversation =
  conv_user_id :: json
  conv_message :: json
  conv_response :: "string option"
  conv_metadata :: json

record lead =
  lead_user_id :: json
  lead_email :: json
  lead_name :: json
  lead_notes :: json

record unknown_question =
  question :: json

text \<open>One constructor for each \<open>print\<close> of the source.\<close>

datatype log_line =
    EmbeddingChunks nat
  | EmbeddedChunks nat
  | RAGRetrievalError exn
  | ErrorSavingConversation exn
  | RecordedLead json
  | ErrorRecordingUser exn
  | RecordedUnknownQuestion json
  | ErrorRecordingQuestion exn
  | SupabaseConnected
  | SupabaseNotConfigured
  | SupabaseConnectionFailed
  | InitializingVectorDatabase
  | VectorDatabaseAlreadyInitialized
  | ReadyWithoutSupabase
  | ErrorReadingResume exn
  | ErrorReadingSummary exn
  | ToolCalled string
  | LeadCaptured json
  | UnknownQuestionLogged json
  | ErrorInChatEndpoint exn

text \<open>
  The state outside the program: the four tables of the store, the outcome of each of
  the coming requests to the store (\<open>Some e\<close>: the request raises \<open>e\<close>; past the end of
  the list every request succeeds), and what has been printed.
\<close>

record world =
  documents :: "document list"
  conversations :: "conversation list"
  leads :: "lead list"
  unknown_questions :: "unknown_question list"
  faults :: "exn option list"
  stdout :: "log_line list"

text \<open>
  A call either raises (\<open>Inl\<close>) or returns (\<open>Inr\<close>), and leaves a world behind.
\<close>

type_synonym 'a result = "(exn + 'a) \<times> world"

definition return :: "'a \<Rightarrow> world \<Rightarrow> 'a result" where
  "return v w = (Inr v, w)"

definition raise :: "exn \<Rightarrow> world \<Rightarrow> 'a result" where
  "raise e w = (Inl e, w)"

text \<open>Sequencing: an exception of the first statement skips the rest.\<close>

definition and_then :: "'a result \<Rightarrow> ('a \<Rightarrow> world \<Rightarrow> 'b result) \<Rightarrow> 'b result" where
  "and_then m f = (case m of (Inl e, w) \<Rightarrow> (Inl e, w) | (Inr v, w) \<Rightarrow> f v w)"

text \<open>\<open>try: body except Exception as e: handler\<close>.\<close>

definition try_except :: "'a result \<Rightarrow> (exn \<Rightarrow> world \<Rightarrow> 'a result) \<Rightarrow> 'a result" where
  "try_except body handler = (case body of (Inl e, w) \<Rightarrow> handler e w | (Inr v, w) \<Rightarrow> (Inr v, w))"

definition print :: "log_line \<Rightarrow> world \<Rightarrow> unit result" where
  "print line w = (Inr (), w\<lparr>stdout := stdout w @ [line]\<rparr>)"

text \<open>\<open>.execute()\<close>: one request sent to the store.\<close>

definition execute :: "world \<Rightarrow> unit result" where
  "execute w =
     (case faults w of
        [] \<Rightarrow> (Inr (), w)
      | outcome # rest \<Rightarrow>
          (case outcome of
             None \<Rightarrow> (Inr (), w\<lparr>faults := rest\<rparr>)
           | Some e \<Rightarrow> (Inl e, w\<lparr>faults := rest\<rparr>)))"

text \<open>
  What the next request to the store will do, read off the world: raise \<open>e\<close>, or
  succeed; and the world once that request has been answered.
\<close>

definition next_request_fails :: "world \<Rightarrow> exn \<Rightarrow> bool" where
  "next_request_fails w e =
     (case faults w of [] \<Rightarrow> False | outcome # rest \<Rightarrow> outcome = Some e)"

definition next_request_succeeds :: "world \<Rightarrow> bool" where
  "next_request_succeeds w =
     (case faults w of [] \<Rightarrow> True | outcome # rest \<Rightarrow> outcome = None)"

definition after_request :: "world \<Rightarrow> world" where
  "after_request w = w\<lparr>faults := tl (faults w)\<rparr>"

text \<open>\<open>supabase.table('documents').select('id').limit(1).execute()\<close>, its \<open>data\<close>.\<close>

definition select_documents :: "nat \<Rightarrow> world \<Rightarrow> document list result" where
  "select_documents limit w =
     and_then (execute w) (\<lambda>_ w1. return (take limit (documents w1)) w1)"

definition insert_document :: "document \<Rightarrow> world \<Rightarrow> unit result" where
  "insert_document row w =
     and_then (execute w) (\<lambda>_ w1. return () (w1\<lparr>documents := documents w1 @ [row]\<rparr>))"

definition insert_conversation :: "conversation \<Rightarrow> world \<Rightarrow> unit result" where
  "insert_conversation row w =
     and_then (execute w) (\<lambda>_ w1. return () (w1\<lparr>conversations := conversations w1 @ [row]\<rparr>))"

definition insert_lead :: "lead \<Rightarrow> world \<Rightarrow> unit result" where
  "insert_lead row w =
     and_then (execute w) (\<lambda>_ w1. return () (w1\<lparr>leads := leads w1 @ [row]\<rparr>))"

definition insert_unknown_question :: "unknown_question \<Rightarrow> world \<Rightarrow> unit result" where
  "insert_unknown_question row w =
     and_then (execute w)
       (\<lambda>_ w1. return () (w1\<lparr>unknown_questions := unknown_questions w1 @ [row]\<rparr>))"

section \<open>Retrieval engine: the store\<close>

text \<open>
  \<open>RAGRetriever.is_initialized\<close>: the query and \<open>len(result.data) > 0\<close> in a
  \<open>try\<close>, \<open>return False\<close> in the bare \<open>except\<close>.
\<close>

definition is_initialized :: "world \<Rightarrow> bool result" where
  "is_initialized w =
     try_except
       (and_then (select_documents 1 w) (\<lambda>data w1. return (0 < length data) w1))
       (\<lambda>e w1. return False w1)"

text \<open>\<open>RAGRetriever.generate_embedding\<close>: one call to the provider, not guarded.\<close>

definition generate_embedding :: "env \<Rightarrow> json \<Rightarrow> world \<Rightarrow> real list result" where
  "generate_embedding env text w =
     (case embeddings_create env text of Inl e \<Rightarrow> raise e w | Inr embedding \<Rightarrow> return embedding w)"

text \<open>
  The loop of \<open>embed_documents\<close>: for each chunk one embedding and one insert, neither
  guarded.
\<close>

fun embed_chunks :: "env \<Rightarrow> chunk list \<Rightarrow> world \<Rightarrow> unit result" where
  "embed_chunks env [] w = return () w"
| "embed_chunks env (c # rest) w =
     and_then (generate_embedding env (JStr (content c)) w) (\<lambda>embedding w1.
     and_then (insert_document
                 \<lparr>doc_content = content c, doc_metadata = metadata c,
                  doc_embedding = embedding\<rparr> w1) (\<lambda>_ w2.
     embed_chunks env rest w2))"

definition embed_documents :: "env \<Rightarrow> string \<Rightarrow> string \<Rightarrow> world \<Rightarrow> unit result" where
  "embed_documents env resume_text summary_text w =
     (let chunks = chunk_text resume_text ''resume'' @ chunk_text summary_text ''summary''
      in and_then (print (EmbeddingChunks (length chunks)) w) (\<lambda>_ w1.
         and_then (embed_chunks env chunks w1) (\<lambda>_ w2.
         print (EmbeddedChunks (length chunks)) w2)))"

text \<open>
  Modelled from the spec: the store's similarity search procedure \<open>match_documents\<close>,
  which the source calls by name and which is not among the source files. The spec has
  it accept a query vector, a similarity threshold and a result-count limit, and return
  the nearest records above the threshold, ranked by descending similarity.
\<close>

definition match_documents ::
  "env \<Rightarrow> document list \<Rightarrow> real list \<Rightarrow> real \<Rightarrow> nat \<Rightarrow> document list" where
  "match_documents env docs query_embedding match_threshold match_count =
     take match_count
       (rev (sort_key (\<lambda>d. similarity env (doc_embedding d) query_embedding)
               (filter (\<lambda>d. match_threshold < similarity env (doc_embedding d) query_embedding)
                  docs)))"

text \<open>\<open>supabase.rpc('match_documents', {...}).execute()\<close>, its \<open>data\<close>.\<close>

definition rpc_match_documents ::
  "env \<Rightarrow> real list \<Rightarrow> real \<Rightarrow> nat \<Rightarrow> world \<Rightarrow> document list result" where
  "rpc_match_documents env query_embedding match_threshold match_count w =
     and_then (execute w) (\<lambda>_ w1.
       return (match_documents env (documents w1) query_embedding match_threshold match_count) w1)"

text \<open>\<open>RAGRetriever.retrieve_context(query, top_k=3)\<close>.\<close>

definition retrieve_context :: "env \<Rightarrow> json \<Rightarrow> nat \<Rightarrow> world \<Rightarrow> string list result" where
  "retrieve_context env query top_k w =
     try_except
       (and_then (generate_embedding env query w) (\<lambda>query_embedding w1.
        and_then (rpc_match_documents env query_embedding (7 / 10) top_k w1) (\<lambda>data w2.
        return (map doc_content data) w2)))
       (\<lambda>e w1. and_then (print (RAGRetrievalError e) w1) (\<lambda>_ w2. return [] w2))"

section \<open>Conversation store\<close>

text \<open>
  An argument with a default is an option: \<open>None\<close> when the caller leaves it out.
  \<open>save_conversation(user_id, message, response, metadata=None)\<close> has no \<open>return\<close>
  statement, so it returns \<open>None\<close> on both paths.
\<close>

definition save_conversation ::
  "json \<Rightarrow> json \<Rightarrow> string option \<Rightarrow> json option \<Rightarrow> world \<Rightarrow> json result" where
  "save_conversation user_id msg response metadata_arg w =
     (let metadata = (case metadata_arg of None \<Rightarrow> JNull | Some m \<Rightarrow> m)
      in try_except
           (and_then (insert_conversation
                        \<lparr>conv_user_id = user_id, conv_message = msg, conv_response = response,
                         conv_metadata = (if truthy metadata then metadata else JObj [])\<rparr> w)
              (\<lambda>_ w1. return JNull w1))
           (\<lambda>e w1. and_then (print (ErrorSavingConversation e) w1) (\<lambda>_ w2. return JNull w2)))"

text \<open>\<open>record_user_details(user_id, email, name="Not provided", notes="")\<close>.\<close>

definition record_user_details ::
  "env \<Rightarrow> json \<Rightarrow> json \<Rightarrow> json option \<Rightarrow> json option \<Rightarrow> world \<Rightarrow> json result" where
  "record_user_details env user_id email name_arg notes_arg w =
     (let name = (case name_arg of None \<Rightarrow> JStr ''Not provided'' | Some n \<Rightarrow> n);
          notes = (case notes_arg of None \<Rightarrow> JStr [] | Some n \<Rightarrow> n)
      in try_except
           (and_then (insert_lead
                        \<lparr>lead_user_id = user_id, lead_email = email, lead_name = name,
                         lead_notes = notes\<rparr> w) (\<lambda>_ w1.
            and_then (print (RecordedLead email) w1) (\<lambda>_ w2.
            return (JObj [(''recorded'', JStr ''ok''), (''email'', email)]) w2)))
           (\<lambda>e w1. and_then (print (ErrorRecordingUser e) w1) (\<lambda>_ w2.
              return (JObj [(''error'', JStr (str_exn env e))]) w2)))"

text \<open>\<open>record_unknown_question(question)\<close>.\<close>

definition record_unknown_question :: "env \<Rightarrow> json \<Rightarrow> world \<Rightarrow> json result" where
  "record_unknown_question env q w =
     try_except
       (and_then (insert_unknown_question \<lparr>question = q\<rparr> w) (\<lambda>_ w1.
        and_then (print (RecordedUnknownQuestion q) w1) (\<lambda>_ w2.
        return (JObj [(''recorded'', JStr ''ok'')]) w2)))
       (\<lambda>e w1. and_then (print (ErrorRecordingQuestion e) w1) (\<lambda>_ w2.
          return (JObj [(''error'', JStr (str_exn env e))]) w2))"

section \<open>Tool dispatcher\<close>

text \<open>
  \<open>self.db.record_user_details(user_id, **arguments)\<close>: the call binds the items of
  \<open>arguments\<close> to the parameters by name. It raises \<open>TypeError\<close>, before the body
  runs, when \<open>arguments\<close> is not a \<open>dict\<close>, when a key is none of \<open>email\<close>,
  \<open>name\<close>, \<open>notes\<close>, or when \<open>email\<close> is missing.
\<close>

definition call_record_user_details :: "env \<Rightarrow> json \<Rightarrow> json \<Rightarrow> world \<Rightarrow> json result" where
  "call_record_user_details env user_id arguments w =
     (case arguments of
        JObj kwargs \<Rightarrow>
          if list_all (\<lambda>k. k \<in> set [''email'', ''name'', ''notes'']) (map fst kwargs)
          then (case map_of kwargs ''email'' of
                  None \<Rightarrow> raise TypeError w
                | Some email \<Rightarrow>
                    record_user_details env user_id email
                      (map_of kwargs ''name'') (map_of kwargs ''notes'') w)
          else raise TypeError w
      | _ \<Rightarrow> raise TypeError w)"

text \<open>\<open>self.db.record_unknown_question(**arguments)\<close>, bound the same way.\<close>

definition call_record_unknown_question :: "env \<Rightarrow> json \<Rightarrow> world \<Rightarrow> json result" where
  "call_record_unknown_question env arguments w =
     (case arguments of
        JObj kwargs \<Rightarrow>
          if list_all (\<lambda>k. k = ''question'') (map fst kwargs)
          then (case map_of kwargs ''question'' of
                  None \<Rightarrow> raise TypeError w
                | Some q \<Rightarrow> record_unknown_question env q w)
          else raise TypeError w
      | _ \<Rightarrow> raise TypeError w)"

text \<open>\<open>d.get(key, fallback)\<close>; \<open>AttributeError\<close> when \<open>d\<close> is not a \<open>dict\<close>.\<close>

definition dict_get :: "json \<Rightarrow> string \<Rightarrow> json \<Rightarrow> world \<Rightarrow> json result" where
  "dict_get d key fallback w =
     (case d of
        JObj items \<Rightarrow> return (case map_of items key of None \<Rightarrow> fallback | Some v \<Rightarrow> v) w
      | _ \<Rightarrow> raise AttributeError w)"

definition logged_locally :: json where
  "logged_locally =
     JObj [(''recorded'', JStr ''ok''), (''note'', JStr ''Logged locally (Supabase disabled)'')]"

text \<open>
  The body of the loop of \<open>_handle_tool_calls\<close>, up to the handler's \<open>result\<close>:
  \<open>json.loads\<close> first, then the routing on the tool name.
\<close>

definition handle_tool_call :: "env \<Rightarrow> bool \<Rightarrow> json \<Rightarrow> tool_call \<Rightarrow> world \<Rightarrow> json result" where
  "handle_tool_call env enabled user_id tool_call w =
     (let tool_name = tc_name tool_call
      in case json_loads env (tc_arguments tool_call) of
           Inl e \<Rightarrow> raise e w
         | Inr arguments \<Rightarrow>
             and_then (print (ToolCalled tool_name) w) (\<lambda>_ w1.
               if tool_name = ''record_user_details'' then
                 if enabled then call_record_user_details env user_id arguments w1
                 else and_then (print (LeadCaptured arguments) w1) (\<lambda>_ w2.
                        return logged_locally w2)
               else if tool_name = ''record_unknown_question'' then
                 if enabled then call_record_unknown_question env arguments w1
                 else and_then (dict_get arguments ''question'' JNull w1) (\<lambda>q w2.
                      and_then (print (UnknownQuestionLogged q) w2) (\<lambda>_ w3.
                        return logged_locally w3))
               else return (JObj [(''error'', JStr ''Unknown tool'')]) w1))"

text \<open>The envelope appended to \<open>results\<close> for one tool call.\<close>

definition envelope :: "env \<Rightarrow> tool_call \<Rightarrow> json \<Rightarrow> chat_item" where
  "envelope env tool_call result =
     Dict (JObj [(''role'', JStr ''tool''),
                 (''content'', JStr (json_dumps env result)),
                 (''tool_call_id'', JStr (tc_id tool_call))])"

fun handle_tool_calls_loop ::
  "env \<Rightarrow> bool \<Rightarrow> json \<Rightarrow> tool_call list \<Rightarrow> chat_item list \<Rightarrow> world \<Rightarrow> chat_item list result" where
  "handle_tool_calls_loop env enabled user_id [] results w = return results w"
| "handle_tool_calls_loop env enabled user_id (tool_call # rest) results w =
     and_then (handle_tool_call env enabled user_id tool_call w) (\<lambda>result w1.
       handle_tool_calls_loop env enabled user_id rest
         (results @ [envelope env tool_call result]) w1)"

text \<open>\<open>AdityaChatbot._handle_tool_calls(tool_calls, user_id)\<close>.\<close>

definition handle_tool_calls ::
  "env \<Rightarrow> bool \<Rightarrow> tool_call list \<Rightarrow> json \<Rightarrow> world \<Rightarrow> chat_item list result" where
  "handle_tool_calls env enabled calls user_id w =
     handle_tool_calls_loop env enabled user_id calls [] w"

section \<open>Chat orchestrator\<close>

record chatbot =
  supabase_enabled :: bool
  resume :: string
  summary :: string

definition bot_name :: string where
  "bot_name = ''Aditya Mazumdar''"

text \<open>\<open>sep.join(parts)\<close>.\<close>

fun join :: "string \<Rightarrow> string list \<Rightarrow> string" where
  "join sep [] = []"
| "join sep [x] = x"
| "join sep (x # y # rest) = x @ sep @ join sep (y # rest)"

definition base_prompt :: string where
  "base_prompt =
     ''You are acting as '' @ bot_name @ '', a Software Development Engineer. ''
     @ ''You are answering questions on '' @ bot_name @ '''s portfolio website, ''
     @ ''particularly questions related to '' @ bot_name
     @ '''s career, background, skills, experience, and projects. ''
     @ ''Your responsibility is to represent '' @ bot_name
     @ '' for interactions on the website as faithfully as possible. ''
     @ ''Be professional, engaging, and friendly, as if talking to a potential client, ''
     @ ''recruiter, or future employer who came across the website. ''
     @ ''Keep your responses concise and to the point - aim for 2-3 sentences unless ''
     @ ''more detail is specifically requested. ''
     @ ''If you don't know the answer to any question, use your record_unknown_question ''
     @ ''tool to record the question that you couldn't answer. ''
     @ ''If the user is engaging in discussion and seems interested in collaboration or ''
     @ ''hiring, try to steer them towards getting in touch via email; ask for their ''
     @ ''email and record it using your record_user_details tool.''"

text \<open>\<open>AdityaChatbot._build_system_prompt(rag_context)\<close>.\<close>

definition build_system_prompt :: "chatbot \<Rightarrow> string list \<Rightarrow> string" where
  "build_system_prompt self rag_context =
     base_prompt
     @ (if rag_context \<noteq> []
        then [newline, newline] @ ''## Retrieved Context:'' @ [newline]
             @ join [newline, newline] rag_context
        else [])
     @ (if summary self \<noteq> []
        then [newline, newline] @ ''## Summary:'' @ [newline] @ summary self @ [newline, newline]
        else [])
     @ (if resume self \<noteq> []
        then ''## Resume:'' @ [newline] @ resume self @ [newline, newline]
        else [])
     @ ''With this context, please chat with the user, always staying in character as ''
     @ bot_name @ ''. Be helpful, professional, and engaging!''"

text \<open>
  What \<open>messages.extend(history)\<close> appends: the elements of a list, the characters of
  a string, the keys of a \<open>dict\<close>; anything else is not iterable.
\<close>

definition iterate :: "json \<Rightarrow> world \<Rightarrow> json list result" where
  "iterate v w =
     (case v of
        JArr xs \<Rightarrow> return xs w
      | JStr s \<Rightarrow> return (map (\<lambda>c. JStr [c]) s) w
      | JObj items \<Rightarrow> return (map (\<lambda>item. JStr (fst item)) items) w
      | _ \<Rightarrow> raise TypeError w)"

text \<open>
  The loop \<open>while not done\<close> of \<open>chat\<close>. The source gives it no bound, so it is a
  partial function: \<open>None\<close> is a loop that never ends. It returns the last \<open>response\<close>.
\<close>

partial_function (option) chat_loop ::
  "env \<Rightarrow> bool \<Rightarrow> json \<Rightarrow> chat_item list \<Rightarrow> world \<Rightarrow> completion result option" where
  "chat_loop env enabled user_id messages w =
     (case completions_create env messages of
        Inl e \<Rightarrow> Some (raise e w)
      | Inr response \<Rightarrow>
          if finish_reason response = ''tool_calls'' then
            (let message_obj = choice_message response
             in case handle_tool_calls env enabled (tool_calls message_obj) user_id w of
                  (Inl e, w1) \<Rightarrow> Some (Inl e, w1)
                | (Inr tool_results, w1) \<Rightarrow>
                    chat_loop env enabled user_id
                      (messages @ [MessageObj message_obj] @ tool_results) w1)
          else Some (return response w))"

declare chat_loop.simps [code]

text \<open>
  \<open>AdityaChatbot.chat(message, history, user_id)\<close>. It returns the \<open>content\<close> of the
  last completion as it is: a string, or \<open>None\<close>.
\<close>

definition chat ::
  "env \<Rightarrow> chatbot \<Rightarrow> json \<Rightarrow> json \<Rightarrow> json \<Rightarrow> world \<Rightarrow> string option result option" where
  "chat env self msg history user_id w =
     (case (if supabase_enabled self then retrieve_context env msg 3 w else return [] w) of
        (Inl e, w1) \<Rightarrow> Some (Inl e, w1)
      | (Inr relevant_chunks, w1) \<Rightarrow>
          (case iterate history w1 of
             (Inl e, w2) \<Rightarrow> Some (Inl e, w2)
           | (Inr turns, w2) \<Rightarrow>
               (let messages =
                      [Dict (JObj [(''role'', JStr ''system''),
                                   (''content'', JStr (build_system_prompt self relevant_chunks))])]
                      @ map Dict turns
                      @ [Dict (JObj [(''role'', JStr ''user''), (''content'', msg)])]
                in case chat_loop env (supabase_enabled self) user_id messages w2 of
                     None \<Rightarrow> None
                   | Some (Inl e, w3) \<Rightarrow> Some (Inl e, w3)
                   | Some (Inr response, w3) \<Rightarrow>
                       (let final_response = msg_content (choice_message response)
                        in if supabase_enabled self
                           then Some (and_then
                                        (save_conversation user_id msg final_response None w3)
                                        (\<lambda>_ w4. return final_response w4))
                           else Some (return final_response w3)))))"

section \<open>The HTTP route\<close>

text \<open>A request, by what \<open>request.json\<close> gives: the parsed body, or an exception.\<close>

record request =
  request_json :: "exn + json"

record http_response =
  status :: nat
  body :: json

text \<open>
  The \<open>try\<close> block of the route \<open>chat()\<close>. \<open>jsonify\<close> writes the answer of
  \<open>chat\<close> under \<open>response\<close> as a string, or as \<open>null\<close> when it is \<open>None\<close>.
\<close>

definition chat_route_try ::
  "env \<Rightarrow> chatbot \<Rightarrow> request \<Rightarrow> world \<Rightarrow> http_response result option" where
  "chat_route_try env self req w =
     (case request_json req of
        Inl e \<Rightarrow> Some (raise e w)
      | Inr data \<Rightarrow>
          (case and_then (dict_get data ''message'' (JStr []) w) (\<lambda>msg w1.
                and_then (dict_get data ''history'' (JArr []) w1) (\<lambda>history w2.
                and_then (dict_get data ''user_id'' (JStr ''anonymous'') w2) (\<lambda>user_id w3.
                return (msg, history, user_id) w3))) of
             (Inl e, w1) \<Rightarrow> Some (Inl e, w1)
           | (Inr (msg, history, user_id), w1) \<Rightarrow>
               if \<not> truthy msg
               then Some (return \<lparr>status = 400,
                                   body = JObj [(''error'', JStr ''Message is required'')]\<rparr> w1)
               else (case chat env self msg history user_id w1 of
                       None \<Rightarrow> None
                     | Some (Inl e, w2) \<Rightarrow> Some (Inl e, w2)
                     | Some (Inr response, w2) \<Rightarrow>
                         Some (return \<lparr>status = 200,
                                        body = JObj [(''response'',
                                                      (case response of
                                                         None \<Rightarrow> JNull
                                                       | Some answer \<Rightarrow> JStr answer)),
                                                     (''success'', JBool True)]\<rparr> w2))))"

text \<open>The route \<open>POST /api/chat\<close>: the \<open>try\<close> block and its \<open>except Exception\<close>.\<close>

definition chat_route ::
  "env \<Rightarrow> chatbot \<Rightarrow> request \<Rightarrow> world \<Rightarrow> http_response result option" where
  "chat_route env self req w =
     (case chat_route_try env self req w of
        None \<Rightarrow> None
      | Some outcome \<Rightarrow>
          Some (try_except outcome (\<lambda>e w1.
                  and_then (print (ErrorInChatEndpoint e) w1) (\<lambda>_ w2.
                  return \<lparr>status = 500,
                          body = JObj [(''error'', JStr (str_exn env e)),
                                       (''success'', JBool False)]\<rparr> w2))))"

section \<open>Startup\<close>

text \<open>\<open>s.startswith(prefix)\<close> and \<open>sub in s\<close> on strings.\<close>

fun startswith :: "string \<Rightarrow> string \<Rightarrow> bool" where
  "startswith s [] = True"
| "startswith [] (p # ps) = False"
| "startswith (c # cs) (p # ps) = (c = p \<and> startswith cs ps)"

fun contains :: "string \<Rightarrow> string \<Rightarrow> bool" where
  "contains [] sub = (sub = [])"
| "contains (c # cs) sub = (startswith (c # cs) sub \<or> contains cs sub)"

text \<open>
  The test of \<open>__init__\<close> on \<open>SUPABASE_URL\<close> and \<open>SUPABASE_KEY\<close>, for
  variables that are set.
\<close>

definition supabase_configured :: "string \<Rightarrow> string \<Rightarrow> bool" where
  "supabase_configured supabase_url supabase_key =
     (supabase_url \<noteq> [] \<and> supabase_key \<noteq> [] \<and> \<not> contains supabase_url ''your-project''
      \<and> startswith supabase_url ''https://'' \<and> contains supabase_url ''.supabase.co'')"

text \<open>
  The first \<open>try\<close> of \<open>__init__\<close>: the value left in \<open>self.supabase_enabled\<close>. A
  variable that is not set is \<open>None\<close>, which fails the test as an empty string does.
\<close>

definition connect_supabase :: "env \<Rightarrow> world \<Rightarrow> bool result" where
  "connect_supabase env w =
     (let not_configured = and_then (print SupabaseNotConfigured w) (\<lambda>_ w1. return False w1)
      in try_except
           (case getenv env ''SUPABASE_URL'' of
              None \<Rightarrow> not_configured
            | Some supabase_url \<Rightarrow>
                (case getenv env ''SUPABASE_KEY'' of
                   None \<Rightarrow> not_configured
                 | Some supabase_key \<Rightarrow>
                     if supabase_configured supabase_url supabase_key
                     then (case create_client env supabase_url supabase_key of
                             Some e \<Rightarrow> raise e w
                           | None \<Rightarrow>
                               and_then (select_documents 1 w) (\<lambda>test_result w1.
                               and_then (print SupabaseConnected w1) (\<lambda>_ w2.
                               return True w2)))
                     else not_configured))
           (\<lambda>e w1. and_then (print SupabaseConnectionFailed w1) (\<lambda>_ w2. return False w2)))"

text \<open>\<open>_load_resume\<close>: the text of the pages that have some, or the fallback.\<close>

definition load_resume :: "env \<Rightarrow> world \<Rightarrow> string result" where
  "load_resume env w =
     try_except
       (case resume_pdf env of
          Inl e \<Rightarrow> raise e w
        | Inr pages \<Rightarrow>
            return (foldl (\<lambda>text page. if page \<noteq> [] then text @ page else text) [] pages) w)
       (\<lambda>e w1. and_then (print (ErrorReadingResume e) w1) (\<lambda>_ w2.
          return ''Resume information unavailable'' w2))"

text \<open>\<open>_load_summary\<close>.\<close>

definition load_summary :: "env \<Rightarrow> world \<Rightarrow> string result" where
  "load_summary env w =
     try_except
       (case summary_txt env of Inl e \<Rightarrow> raise e w | Inr text \<Rightarrow> return text w)
       (\<lambda>e w1. and_then (print (ErrorReadingSummary e) w1) (\<lambda>_ w2. return [] w2))"

text \<open>
  The last statement of \<open>__init__\<close>: \<open>if self.supabase_enabled: if not
  self.rag.is_initialized(): ... embed_documents ...\<close>.
\<close>

definition initialize_vector_database ::
  "env \<Rightarrow> bool \<Rightarrow> string \<Rightarrow> string \<Rightarrow> world \<Rightarrow> unit result" where
  "initialize_vector_database env enabled resume_text summary_text w =
     (if enabled
      then and_then (is_initialized w) (\<lambda>initialized w1.
             if \<not> initialized
             then and_then (print InitializingVectorDatabase w1) (\<lambda>_ w2.
                    embed_documents env resume_text summary_text w2)
             else print VectorDatabaseAlreadyInitialized w1)
      else print ReadyWithoutSupabase w)"

text \<open>
  \<open>AdityaChatbot.__init__\<close>, from the connection to the store on; an exception of
  \<open>embed_documents\<close> is not caught and leaves the constructor.
\<close>

definition chatbot_init :: "env \<Rightarrow> world \<Rightarrow> chatbot result" where
  "chatbot_init env w =
     and_then (connect_supabase env w) (\<lambda>enabled w1.
     and_then (load_resume env w1) (\<lambda>resume_text w2.
     and_then (load_summary env w2) (\<lambda>summary_text w3.
     and_then (initialize_vector_database env enabled resume_text summary_text w3) (\<lambda>_ w4.
     return \<lparr>supabase_enabled = enabled, resume = resume_text, summary = summary_text\<rparr> w4))))"

section \<open>Concrete inputs\<close>

text \<open>The \<open>chunk_id\<close> of each chunk of a list, in order.\<close>

definition chunk_ids :: "chunk list \<Rightarrow> nat list" where
  "chunk_ids chunks = map (\<lambda>c. chunk_id (metadata c)) chunks"

text \<open>A text of two sections: five characters, then fifty-one.\<close>

definition short_then_long :: string where
  "short_then_long = ''short'' @ [newline, newline] @ replicate 51 (CHR ''a'')"

text \<open>A text of two sections, both longer than fifty characters.\<close>

definition two_long_sections :: string where
  "two_long_sections = replicate 51 (CHR ''a'') @ [newline, newline] @ replicate 60 (CHR ''b'')"

text \<open>A text of one section of exactly fifty characters.\<close>

definition fifty_chars :: string where
  "fifty_chars = replicate 50 (CHR ''a'')"

text \<open>
  Stand-ins for the library functions, right on the values used below. \<open>str(e)\<close> for
  an exception of a library is its message; for the \<open>AttributeError\<close> and the
  \<open>TypeError\<close> raised below it is the message of the interpreter (CPython 3.10 and
  later): \<open>get\<close> looked up on a list, and \<open>record_user_details\<close> called without
  \<open>email\<close>. \<open>json.loads\<close> is given on three payloads that are JSON and on strings
  that are not; \<open>json.dumps\<close> on three handler results.
\<close>

definition no_get_on_list :: string where
  "no_get_on_list = '''list' object has no attribute 'get'' @ [CHR 0x27]"

definition missing_email :: string where
  "missing_email =
     ''ConversationStore.record_user_details() missing 1 required positional argument: 'email''
     @ [CHR 0x27]"

definition sample_str_exn :: "exn \<Rightarrow> string" where
  "sample_str_exn e =
     (case e of
        External msg \<Rightarrow> msg
      | TypeError \<Rightarrow> missing_email
      | AttributeError \<Rightarrow> no_get_on_list)"

definition email_payload :: string where
  \<open>email_payload = ''{"email": "a@b.com"}''\<close>

definition question_payload :: string where
  \<open>question_payload = ''{"question": "Do you ski?"}''\<close>

definition sample_json_loads :: "string \<Rightarrow> exn + json" where
  "sample_json_loads s =
     (if s = ''{}'' then Inr (JObj [])
      else if s = email_payload then Inr (JObj [(''email'', JStr ''a@b.com'')])
      else if s = question_payload then Inr (JObj [(''question'', JStr ''Do you ski?'')])
      else Inl (External ''Expecting value: line 1 column 1 (char 0)''))"

definition sample_json_dumps :: "json \<Rightarrow> string" where
  \<open>sample_json_dumps v =
     (if v = JObj [(''error'', JStr ''Unknown tool'')] then ''{"error": "Unknown tool"}''
      else if v = JObj [(''recorded'', JStr ''ok'')] then ''{"recorded": "ok"}''
      else if v = logged_locally
      then ''{"recorded": "ok", "note": "Logged locally (Supabase disabled)"}''
      else [])\<close>

text \<open>A similarity measure for the examples: the inner product.\<close>

definition sample_similarity :: "real list \<Rightarrow> real list \<Rightarrow> real" where
  "sample_similarity u v = sum_list (map2 (*) u v)"

text \<open>A model that answers at once, without asking for a tool.\<close>

definition answers_directly :: "chat_item list \<Rightarrow> exn + completion" where
  "answers_directly messages =
     Inr \<lparr>finish_reason = ''stop'',
          choice_message = \<lparr>msg_content = Some ''Hello!'', tool_calls = []\<rparr>\<rparr>"

text \<open>
  An environment: a configured store, a provider that embeds every text as \<open>[1, 0]\<close>,
  a model that answers at once, a one-page PDF and a summary file.
\<close>

definition sample_env :: env where
  "sample_env =
     \<lparr>str_exn = sample_str_exn,
      json_loads = sample_json_loads,
      json_dumps = sample_json_dumps,
      embeddings_create = (\<lambda>text. Inr [1, 0]),
      completions_create = answers_directly,
      similarity = sample_similarity,
      getenv = [''SUPABASE_URL'' \<mapsto> ''https://abc.supabase.co'', ''SUPABASE_KEY'' \<mapsto> ''key''],
      create_client = (\<lambda>url key. None),
      resume_pdf = Inr [replicate 60 (CHR ''r'')],
      summary_txt = Inr ''A short summary.''\<rparr>"

text \<open>A store with empty tables where every request succeeds; nothing printed yet.\<close>

definition quiet_world :: world where
  "quiet_world =
     \<lparr>documents = [], conversations = [], leads = [], unknown_questions = [],
      faults = [], stdout = []\<rparr>"

text \<open>The same, but the next request to the store fails.\<close>

definition store_down :: world where
  "store_down = quiet_world\<lparr>faults := [Some (External ''connection refused'')]\<rparr>"

text \<open>
  A store holding five documents, listed here out of order, whose similarity to the query
  embedding \<open>[1, 0]\<close> is the first coordinate of their embedding.
\<close>

definition library_world :: world where
  "library_world =
     quiet_world\<lparr>documents :=
       [\<lparr>doc_content = ''Poles'', doc_metadata = \<lparr>source = ''resume'', chunk_id = 0\<rparr>,
         doc_embedding = [8 / 10, 0]\<rparr>,
        \<lparr>doc_content = ''Wax'', doc_metadata = \<lparr>source = ''resume'', chunk_id = 1\<rparr>,
         doc_embedding = [5 / 10, 0]\<rparr>,
        \<lparr>doc_content = ''Skis'', doc_metadata = \<lparr>source = ''resume'', chunk_id = 2\<rparr>,
         doc_embedding = [1, 0]\<rparr>,
        \<lparr>doc_content = ''Gloves'', doc_metadata = \<lparr>source = ''summary'', chunk_id = 0\<rparr>,
         doc_embedding = [75 / 100, 0]\<rparr>,
        \<lparr>doc_content = ''Boots'', doc_metadata = \<lparr>source = ''summary'', chunk_id = 1\<rparr>,
         doc_embedding = [9 / 10, 0]\<rparr>]\<rparr>"

text \<open>A store that already holds one embedded document.\<close>

definition old_document :: document where
  "old_document =
     \<lparr>doc_content = ''An old chunk'', doc_metadata = \<lparr>source = ''resume'', chunk_id = 0\<rparr>,
      doc_embedding = [0, 1]\<rparr>"

definition populated_world :: world where
  "populated_world = quiet_world\<lparr>documents := [old_document]\<rparr>"

text \<open>The same store when its second request times out and the others succeed.\<close>

definition populated_flaky :: world where
  "populated_flaky = populated_world\<lparr>faults := [None, Some (External ''timeout'')]\<rparr>"

section \<open>Notions used in the statements about the dispatcher\<close>

text \<open>
  Arguments that bind to the parameters of \<open>record_user_details\<close>, and of
  \<open>record_unknown_question\<close>; and a tool call that the loop of the dispatcher gets
  through without an exception: its payload is JSON, and its arguments fit the handler
  that its name selects.
\<close>

definition binds_user_details :: "json \<Rightarrow> bool" where
  "binds_user_details arguments =
     (case arguments of
        JObj kwargs \<Rightarrow>
          list_all (\<lambda>k. k \<in> set [''email'', ''name'', ''notes'']) (map fst kwargs)
          \<and> map_of kwargs ''email'' \<noteq> None
      | _ \<Rightarrow> False)"

definition binds_unknown_question :: "json \<Rightarrow> bool" where
  "binds_unknown_question arguments =
     (case arguments of
        JObj kwargs \<Rightarrow>
          list_all (\<lambda>k. k = ''question'') (map fst kwargs) \<and> map_of kwargs ''question'' \<noteq> None
      | _ \<Rightarrow> False)"

definition is_dict :: "json \<Rightarrow> bool" where
  "is_dict v = (case v of JObj items \<Rightarrow> True | _ \<Rightarrow> False)"

definition accepted :: "env \<Rightarrow> bool \<Rightarrow> tool_call \<Rightarrow> bool" where
  "accepted env enabled tool_call =
     (case json_loads env (tc_arguments tool_call) of
        Inl e \<Rightarrow> False
      | Inr arguments \<Rightarrow>
          if tc_name tool_call = ''record_user_details''
          then (if enabled then binds_user_details arguments else True)
          else if tc_name tool_call = ''record_unknown_question''
          then (if enabled then binds_unknown_question arguments else is_dict arguments)
          else True)"

text \<open>
  The results of the handlers, in the order of the calls and in the world each call
  finds, up to the first call that raises.
\<close>

fun handler_results :: "env \<Rightarrow> bool \<Rightarrow> json \<Rightarrow> tool_call list \<Rightarrow> world \<Rightarrow> json list" where
  "handler_results env enabled user_id [] w = []"
| "handler_results env enabled user_id (tool_call # rest) w =
     (case handle_tool_call env enabled user_id tool_call w of
        (Inl e, w1) \<Rightarrow> []
      | (Inr result, w1) \<Rightarrow> result # handler_results env enabled user_id rest w1)"

text \<open>Four tool calls.\<close>

definition question_call :: tool_call where
  "question_call =
     \<lparr>tc_id = ''call_1'', tc_name = ''record_unknown_question'', tc_arguments = question_payload\<rparr>"

definition weather_call :: tool_call where
  "weather_call = \<lparr>tc_id = ''call_2'', tc_name = ''get_weather'', tc_arguments = ''{}''\<rparr>"

definition garbled_call :: tool_call where
  "garbled_call = \<lparr>tc_id = ''call_3'', tc_name = ''get_weather'', tc_arguments = ''oops''\<rparr>"

definition lead_call_without_email :: tool_call where
  "lead_call_without_email =
     \<lparr>tc_id = ''call_4'', tc_name = ''record_user_details'', tc_arguments = ''{}''\<rparr>"

section \<open>Notions used in the statements about the orchestrator\<close>

text \<open>
  The loop of \<open>chat\<close> cut after \<open>n\<close> completions: the same body, and \<open>None\<close> when
  the loop has not returned by then.
\<close>

fun chat_rounds ::
  "nat \<Rightarrow> env \<Rightarrow> bool \<Rightarrow> json \<Rightarrow> chat_item list \<Rightarrow> world \<Rightarrow> completion result option" where
  "chat_rounds 0 env enabled user_id messages w = None"
| "chat_rounds (Suc n) env enabled user_id messages w =
     (case completions_create env messages of
        Inl e \<Rightarrow> Some (raise e w)
      | Inr response \<Rightarrow>
          if finish_reason response = ''tool_calls'' then
            (let message_obj = choice_message response
             in case handle_tool_calls env enabled (tool_calls message_obj) user_id w of
                  (Inl e, w1) \<Rightarrow> Some (Inl e, w1)
                | (Inr tool_results, w1) \<Rightarrow>
                    chat_rounds n env enabled user_id
                      (messages @ [MessageObj message_obj] @ tool_results) w1)
          else Some (return response w))"

text \<open>A model that asks for \<open>record_unknown_question\<close> on every completion.\<close>

definition always_requests_tools :: "chat_item list \<Rightarrow> exn + completion" where
  "always_requests_tools messages =
     Inr \<lparr>finish_reason = ''tool_calls'',
          choice_message = \<lparr>msg_content = None, tool_calls = [question_call]\<rparr>\<rparr>"

text \<open>
  A model that asks for \<open>record_unknown_question\<close> while the conversation has at most
  two messages, and answers after that.
\<close>

definition requests_tool_once :: "chat_item list \<Rightarrow> exn + completion" where
  "requests_tool_once messages =
     (if length messages \<le> 2
      then Inr \<lparr>finish_reason = ''tool_calls'',
                choice_message = \<lparr>msg_content = None, tool_calls = [question_call]\<rparr>\<rparr>
      else Inr \<lparr>finish_reason = ''stop'',
                choice_message = \<lparr>msg_content = Some ''I do not know.'', tool_calls = []\<rparr>\<rparr>)"



text \<open>A chatbot that runs without the store.\<close>

definition sample_bot :: chatbot where
  "sample_bot =
     \<lparr>supabase_enabled = False, resume = replicate 60 (CHR ''r''), summary = ''A short summary.''\<rparr>"

text \<open>The two messages a conversation starts with.\<close>

definition first_messages :: "chat_item list" where
  "first_messages =
     [Dict (JObj [(''role'', JStr ''system''), (''content'', JStr ''Be brief.'')]),
      Dict (JObj [(''role'', JStr ''user''), (''content'', JStr ''Do you ski?'')])]"

text \<open>The environment with each of these models in the place of the first.\<close>

definition tool_once_env :: env where
  "tool_once_env = sample_env\<lparr>completions_create := requests_tool_once\<rparr>"

definition tool_forever_env :: env where
  "tool_forever_env = sample_env\<lparr>completions_create := always_requests_tools\<rparr>"



text \<open>Four requests: no message, an empty message, a greeting, and a body that is a list.\<close>

definition empty_body_request :: request where
  "empty_body_request = \<lparr>request_json = Inr (JObj [])\<rparr>"

definition empty_message_request :: request where
  "empty_message_request = \<lparr>request_json = Inr (JObj [(''message'', JStr '''')])\<rparr>"




text \<open>The environment when the embedding endpoint of the provider fails.\<close>

definition embeddings_down_env :: env where
  "embeddings_down_env = sample_env\<lparr>embeddings_create := (\<lambda>text. Inl (External ''rate limited''))\<rparr>"

section \<open>Chunking: what is kept, and under which identifier\<close>

lemma split_nn_not_Nil: "split_nn s \<noteq> []"
  by (induction s rule: split_nn.induct) (auto split: list.splits)

lemma chunk_loop_eq:
  "chunk_loop src i ss acc =
     acc @ map (\<lambda>(j, s). \<lparr>content = s, metadata = \<lparr>source = src, chunk_id = j\<rparr>\<rparr>)
             (filter (\<lambda>(j, s). 50 < length s) (zip [i..<i + length ss] ss))"
proof (induction ss arbitrary: i acc)
  case Nil
  then show ?case by simp
next
  case (Cons s ss)
  have up: "[i..<i + length (s # ss)] = i # [Suc i..<Suc i + length ss]"
    by (simp add: upt_rec)
  show ?case
    unfolding up by (simp add: Cons.IH)
qed

lemma zip_upt_nth: "zip [0..<length ss] ss = map (\<lambda>i. (i, ss ! i)) [0..<length ss]"
  by (rule nth_equalityI) simp_all

lemma chunk_text_eq:
  "chunk_text text src =
     map (\<lambda>i. \<lparr>content = sections text ! i, metadata = \<lparr>source = src, chunk_id = i\<rparr>\<rparr>)
       (filter (\<lambda>i. 50 < length (sections text ! i)) [0..<length (sections text)])"
  by (simp add: chunk_text_def chunk_loop_eq zip_upt_nth filter_map comp_def)

lemma filter_upt_all: "(\<forall>i<n. P i) \<Longrightarrow> filter P [0..<n] = [0..<n]"
  by (induction n) auto

lemma filter_nth_upt: "map (\<lambda>i. ss ! i) (filter (\<lambda>i. P (ss ! i)) [0..<length ss]) = filter P ss"
proof -
  have "map (\<lambda>i. ss ! i) (filter (\<lambda>i. P (ss ! i)) [0..<length ss])
          = filter P (map (\<lambda>i. ss ! i) [0..<length ss])"
    by (simp add: filter_map comp_def)
  then show ?thesis
    by (simp add: map_nth)
qed

text \<open>The chunks are the sections longer than fifty characters, in order.\<close>

lemma chunk_text_contents:
  "map content (chunk_text text src) = filter (\<lambda>s. 50 < length s) (sections text)"
proof -
  have "map content (chunk_text text src)
          = map (\<lambda>i. sections text ! i)
              (filter (\<lambda>i. 50 < length (sections text ! i)) [0..<length (sections text)])"
    by (simp add: chunk_text_eq comp_def)
  also have "\<dots> = filter (\<lambda>s. 50 < length s) (sections text)"
    by (rule filter_nth_upt [of "sections text" "\<lambda>s. 50 < length s"])
  finally show ?thesis .
qed

text \<open>
  C1, as the code has it. The \<open>chunk_id\<close> of a chunk is the position of its section
  among all the trimmed non-empty sections of the text, those discarded included: the
  identifiers are the positions of the sections longer than fifty characters, each chunk
  holds the section at its identifier, the identifiers increase strictly, and they are
  \<open>0, 1, ..., n-1\<close> when no section of the text is discarded.
\<close>

theorem chunk_text_chunk_ids:
  "chunk_ids (chunk_text text src) =
     filter (\<lambda>i. 50 < length (sections text ! i)) [0..<length (sections text)]
   \<and> map content (chunk_text text src) =
       map (\<lambda>i. sections text ! i) (chunk_ids (chunk_text text src))
   \<and> sorted_wrt (<) (chunk_ids (chunk_text text src))
   \<and> ((\<forall>s \<in> set (sections text). 50 < length s) \<longrightarrow>
        chunk_ids (chunk_text text src) = [0..<length (chunk_text text src)])"
proof -
  let ?ids = "filter (\<lambda>i. 50 < length (sections text ! i)) [0..<length (sections text)]"
  have ids: "chunk_ids (chunk_text text src) = ?ids"
    by (simp add: chunk_ids_def chunk_text_eq comp_def)
  have cont: "map content (chunk_text text src) = map (\<lambda>i. sections text ! i) ?ids"
    by (simp add: chunk_text_eq comp_def)
  have incr: "sorted_wrt (<) ?ids"
    by (simp add: sorted_wrt_filter)
  have dense: "?ids = [0..<length (chunk_text text src)]"
    if "\<forall>s \<in> set (sections text). 50 < length s"
  proof -
    from that have "\<forall>i<length (sections text). 50 < length (sections text ! i)"
      by simp
    then have "?ids = [0..<length (sections text)]"
      by (rule filter_upt_all)
    then show ?thesis
      by (simp add: chunk_text_eq)
  qed
  from ids cont have cont': "map content (chunk_text text src) =
      map (\<lambda>i. sections text ! i) (chunk_ids (chunk_text text src))"
    by (simp only:)
  from ids incr have incr': "sorted_wrt (<) (chunk_ids (chunk_text text src))"
    by (simp only:)
  from ids dense have dense': "(\<forall>s \<in> set (sections text). 50 < length s) \<longrightarrow>
        chunk_ids (chunk_text text src) = [0..<length (chunk_text text src)]"
    by (simp only:) blast
  from ids cont' incr' dense' show ?thesis
    by blast
qed

theorem chunk_text_chunk_ids_witness:
  "sections two_long_sections = [replicate 51 (CHR ''a''), replicate 60 (CHR ''b'')]
   \<and> chunk_ids (chunk_text two_long_sections ''summary'') = [0, 1]
   \<and> sorted_wrt (<) (chunk_ids (chunk_text two_long_sections ''summary''))"
proof -
  have secs: "sections two_long_sections = [replicate 51 (CHR ''a''), replicate 60 (CHR ''b'')]"
    by code_simp
  have all_long: "\<forall>s \<in> set (sections two_long_sections). 50 < length s"
    by (simp add: secs)
  have len: "length (chunk_text two_long_sections ''summary'') = 2"
    by code_simp
  from chunk_text_chunk_ids [of two_long_sections "''summary''"] all_long
  have "chunk_ids (chunk_text two_long_sections ''summary'')
          = [0..<length (chunk_text two_long_sections ''summary'')]"
    and "sorted_wrt (<) (chunk_ids (chunk_text two_long_sections ''summary''))"
    by blast+
  with secs len show ?thesis
    by (simp add: upt_rec)
qed

text \<open>
  C1, as the claim states it, fails: a section of five characters is discarded, and the
  one chunk that is returned has \<open>chunk_id\<close> 1, not 0.
\<close>

theorem chunk_ids_dense_counterexample:
  "chunk_ids (chunk_text short_then_long ''resume'') = [1]
   \<and> chunk_ids (chunk_text short_then_long ''resume'')
       \<noteq> [0..<length (chunk_text short_then_long ''resume'')]"
proof -
  have ids: "chunk_ids (chunk_text short_then_long ''resume'') = [1]"
    by code_simp
  have len: "length (chunk_text short_then_long ''resume'') = 1"
    by code_simp
  show ?thesis
    by (simp add: ids len)
qed

text \<open>
  C3. A text that is one section of exactly fifty characters: the section is not empty
  after trimming, and \<open>chunk_text\<close> returns no chunk for it, since the test of the source
  is \<open>len(section) > 50\<close>.
\<close>

theorem chunk_text_drops_fifty_chars:
  "length fifty_chars = 50
   \<and> sections fifty_chars = [fifty_chars]
   \<and> chunk_text fifty_chars ''resume'' = []"
proof -
  have a: "length fifty_chars = 50"
    by (simp add: fifty_chars_def)
  have b: "sections fifty_chars = [fifty_chars]"
    by code_simp
  have c: "chunk_text fifty_chars ''resume'' = []"
    by code_simp
  from a b c show ?thesis
    by simp
qed

section \<open>Running the model\<close>

lemma and_then_Inl: "and_then (Inl e, w) f = (Inl e, w)"
  by (simp add: and_then_def)

lemma and_then_Inr: "and_then (Inr v, w) f = f v w"
  by (simp add: and_then_def)

lemma try_except_Inl: "try_except (Inl e, w) h = h e w"
  by (simp add: try_except_def)

lemma try_except_Inr: "try_except (Inr v, w) h = (Inr v, w)"
  by (simp add: try_except_def)

lemmas run_simps = and_then_Inl and_then_Inr try_except_Inl try_except_Inr
  return_def raise_def print_def

lemma execute_fails: "next_request_fails w e \<Longrightarrow> execute w = (Inl e, after_request w)"
  by (auto simp: next_request_fails_def execute_def after_request_def split: list.splits)

lemma execute_succeeds: "next_request_succeeds w \<Longrightarrow> execute w = (Inr (), after_request w)"
  by (auto simp: next_request_succeeds_def execute_def after_request_def split: list.splits)

lemma execute_cases:
  "next_request_succeeds w \<or> (\<exists>e. next_request_fails w e)"
  by (auto simp: next_request_succeeds_def next_request_fails_def split: list.splits)

lemma after_request_fields [simp]:
  "documents (after_request w) = documents w"
  "conversations (after_request w) = conversations w"
  "leads (after_request w) = leads w"
  "unknown_questions (after_request w) = unknown_questions w"
  "stdout (after_request w) = stdout w"
  by (simp_all add: after_request_def)

section \<open>Conversation store: a failed insert\<close>

text \<open>
  C4, as the code has it. When the insert fails with \<open>e\<close>, each of the three write
  operations prints its error line and returns without raising, and no table changes.
  \<open>record_user_details\<close> and \<open>record_unknown_question\<close> return
  \<open>{"error": str(e)}\<close>; \<open>save_conversation\<close> returns \<open>None\<close>.
\<close>

theorem store_writes_on_failure:
  assumes "next_request_fails w e"
  shows "save_conversation user_id msg response metadata_arg w =
           (Inr JNull, (after_request w)\<lparr>stdout := stdout w @ [ErrorSavingConversation e]\<rparr>)
       \<and> record_user_details env user_id email name_arg notes_arg w =
           (Inr (JObj [(''error'', JStr (str_exn env e))]),
            (after_request w)\<lparr>stdout := stdout w @ [ErrorRecordingUser e]\<rparr>)
       \<and> record_unknown_question env q w =
           (Inr (JObj [(''error'', JStr (str_exn env e))]),
            (after_request w)\<lparr>stdout := stdout w @ [ErrorRecordingQuestion e]\<rparr>)"
proof -
  note ex = execute_fails [OF assms]
  have a: "save_conversation user_id msg response metadata_arg w =
           (Inr JNull, (after_request w)\<lparr>stdout := stdout w @ [ErrorSavingConversation e]\<rparr>)"
    by (simp add: save_conversation_def insert_conversation_def ex run_simps Let_def)
  have b: "record_user_details env user_id email name_arg notes_arg w =
           (Inr (JObj [(''error'', JStr (str_exn env e))]),
            (after_request w)\<lparr>stdout := stdout w @ [ErrorRecordingUser e]\<rparr>)"
    by (simp add: record_user_details_def insert_lead_def ex run_simps Let_def)
  have c: "record_unknown_question env q w =
           (Inr (JObj [(''error'', JStr (str_exn env e))]),
            (after_request w)\<lparr>stdout := stdout w @ [ErrorRecordingQuestion e]\<rparr>)"
    by (simp add: record_unknown_question_def insert_unknown_question_def ex run_simps)
  from a b c show ?thesis by simp
qed

theorem store_writes_on_failure_witness:
  "next_request_fails store_down (External ''connection refused'')
   \<and> fst (save_conversation (JStr ''visitor'') (JStr ''Hi'') (Some ''Hello!'') None store_down) = Inr JNull
   \<and> fst (record_user_details sample_env (JStr ''visitor'') (JStr ''a@b.com'') None None store_down)
       = Inr (JObj [(''error'', JStr ''connection refused'')])
   \<and> fst (record_unknown_question sample_env (JStr ''Do you ski?'') store_down)
       = Inr (JObj [(''error'', JStr ''connection refused'')])
   \<and> stdout (snd (record_unknown_question sample_env (JStr ''Do you ski?'') store_down))
       = [ErrorRecordingQuestion (External ''connection refused'')]"
proof -
  have down: "next_request_fails store_down (External ''connection refused'')"
    by (simp add: next_request_fails_def store_down_def quiet_world_def)
  have msg: "str_exn sample_env (External ''connection refused'') = ''connection refused''"
    by (simp add: sample_env_def sample_str_exn_def)
  have out: "stdout store_down = []"
    by (simp add: store_down_def quiet_world_def)
  from store_writes_on_failure [OF down, of "JStr ''visitor''" "JStr ''Hi''" "Some ''Hello!''" None
      sample_env "JStr ''a@b.com''" None None "JStr ''Do you ski?''"] down msg out
  show ?thesis
    by simp
qed

text \<open>
  C4, as the claim states it, fails for \<open>save_conversation\<close>: on a failed insert it
  returns \<open>None\<close>, not an object of the form \<open>{"error": message}\<close>.
\<close>

theorem save_conversation_counterexample:
  "fst (save_conversation (JStr ''visitor'') (JStr ''Hi'') (Some ''Hello!'') None store_down) = Inr JNull
   \<and> fst (save_conversation (JStr ''visitor'') (JStr ''Hi'') (Some ''Hello!'') None store_down)
       \<noteq> Inr (JObj [(''error'', JStr (str_exn sample_env (External ''connection refused'')))])"
proof -
  have "fst (save_conversation (JStr ''visitor'') (JStr ''Hi'') (Some ''Hello!'') None store_down) = Inr JNull"
    by code_simp
  then show ?thesis
    by simp
qed

section \<open>Conversation store: the defaults of a lead\<close>

text \<open>
  C9. With a user id and an email only, and an insert that succeeds,
  \<open>record_user_details\<close> adds the lead with name \<open>"Not provided"\<close> and empty notes.
  Called the way the dispatcher calls it, with keyword arguments, an \<open>email\<close> alone
  is enough, and without an \<open>email\<close> the call raises \<open>TypeError\<close>.
\<close>

theorem record_user_details_defaults:
  "(next_request_succeeds w \<longrightarrow>
      record_user_details env user_id email None None w =
        (Inr (JObj [(''recorded'', JStr ''ok''), (''email'', email)]),
         (after_request w)
           \<lparr>leads := leads w @ [\<lparr>lead_user_id = user_id, lead_email = email,
                                  lead_name = JStr ''Not provided'', lead_notes = JStr ''''\<rparr>],
            stdout := stdout w @ [RecordedLead email]\<rparr>))
   \<and> call_record_user_details env user_id (JObj [(''email'', email)]) w =
       record_user_details env user_id email None None w
   \<and> (map_of kwargs ''email'' = None \<longrightarrow>
        call_record_user_details env user_id (JObj kwargs) w = (Inl TypeError, w))"
proof -
  have a: "record_user_details env user_id email None None w =
        (Inr (JObj [(''recorded'', JStr ''ok''), (''email'', email)]),
         (after_request w)
           \<lparr>leads := leads w @ [\<lparr>lead_user_id = user_id, lead_email = email,
                                  lead_name = JStr ''Not provided'', lead_notes = JStr ''''\<rparr>],
            stdout := stdout w @ [RecordedLead email]\<rparr>)"
    if "next_request_succeeds w"
    by (simp add: record_user_details_def insert_lead_def execute_succeeds [OF that] run_simps)
  have b: "call_record_user_details env user_id (JObj [(''email'', email)]) w =
       record_user_details env user_id email None None w"
    by (simp add: call_record_user_details_def)
  have c: "call_record_user_details env user_id (JObj kwargs) w = (Inl TypeError, w)"
    if "map_of kwargs ''email'' = None"
    using that by (simp add: call_record_user_details_def raise_def)
  from a b c show ?thesis by blast
qed

theorem record_user_details_defaults_witness:
  "next_request_succeeds quiet_world
   \<and> leads (snd (record_user_details sample_env (JStr ''visitor'') (JStr ''a@b.com'') None None
                   quiet_world))
       = [\<lparr>lead_user_id = JStr ''visitor'', lead_email = JStr ''a@b.com'',
           lead_name = JStr ''Not provided'', lead_notes = JStr ''''\<rparr>]
   \<and> map_of [(''name'', JStr ''Ada'')] ''email'' = None
   \<and> call_record_user_details sample_env (JStr ''visitor'') (JObj [(''name'', JStr ''Ada'')])
         quiet_world = (Inl TypeError, quiet_world)"
proof -
  have ok: "next_request_succeeds quiet_world"
    by (simp add: next_request_succeeds_def quiet_world_def)
  have none: "map_of [(''name'', JStr ''Ada'')] ''email'' = None"
    by simp
  have empty: "leads quiet_world = []"
    by (simp add: quiet_world_def)
  from record_user_details_defaults [of quiet_world sample_env "JStr ''visitor''"
      "JStr ''a@b.com''" "[(''name'', JStr ''Ada'')]"] ok none empty
  show ?thesis
    by simp
qed

section \<open>Retrieval: best effort\<close>

lemma length_match_documents:
  "length (match_documents env docs q t k) \<le> k"
  by (simp add: match_documents_def)

lemma retrieve_context_embedding_fails:
  "embeddings_create env query = Inl e \<Longrightarrow>
     retrieve_context env query top_k w =
       (Inr [], w\<lparr>stdout := stdout w @ [RAGRetrievalError e]\<rparr>)"
  by (simp add: retrieve_context_def generate_embedding_def run_simps)

lemma retrieve_context_store_fails:
  "embeddings_create env query = Inr qe \<Longrightarrow> next_request_fails w e \<Longrightarrow>
     retrieve_context env query top_k w =
       (Inr [], (after_request w)\<lparr>stdout := stdout w @ [RAGRetrievalError e]\<rparr>)"
  by (simp add: retrieve_context_def generate_embedding_def rpc_match_documents_def
        execute_fails run_simps)

lemma retrieve_context_succeeds:
  "embeddings_create env query = Inr qe \<Longrightarrow> next_request_succeeds w \<Longrightarrow>
     retrieve_context env query top_k w =
       (Inr (map doc_content (match_documents env (documents w) qe (7 / 10) top_k)),
        after_request w)"
  by (simp add: retrieve_context_def generate_embedding_def rpc_match_documents_def
        execute_succeeds run_simps)

text \<open>
  C7. \<open>retrieve_context\<close> never raises, and returns at most \<open>top_k\<close> strings. When the
  embedding call and the store request both succeed, the strings are the contents of the
  records the store's procedure returns, in its order; when either fails, the result is
  empty and the error is printed.
\<close>

theorem retrieve_context_best_effort:
  "(\<exists>contents w'. retrieve_context env query top_k w = (Inr contents, w')
       \<and> length contents \<le> top_k)
   \<and> (\<forall>qe. embeddings_create env query = Inr qe \<and> next_request_succeeds w \<longrightarrow>
         retrieve_context env query top_k w =
           (Inr (map doc_content (match_documents env (documents w) qe (7 / 10) top_k)),
            after_request w))
   \<and> (\<forall>e. embeddings_create env query = Inl e \<longrightarrow>
         retrieve_context env query top_k w =
           (Inr [], w\<lparr>stdout := stdout w @ [RAGRetrievalError e]\<rparr>))
   \<and> (\<forall>qe e. embeddings_create env query = Inr qe \<and> next_request_fails w e \<longrightarrow>
         retrieve_context env query top_k w =
           (Inr [], (after_request w)\<lparr>stdout := stdout w @ [RAGRetrievalError e]\<rparr>))"
proof -
  have bounded: "\<exists>contents w'. retrieve_context env query top_k w = (Inr contents, w')
       \<and> length contents \<le> top_k"
  proof (cases "embeddings_create env query")
    case (Inl e)
    then show ?thesis
      by (simp add: retrieve_context_embedding_fails)
  next
    case (Inr qe)
    from execute_cases [of w] show ?thesis
    proof
      assume "next_request_succeeds w"
      with Inr show ?thesis
        by (simp add: retrieve_context_succeeds length_match_documents)
    next
      assume "\<exists>e. next_request_fails w e"
      then obtain e where "next_request_fails w e" ..
      with Inr show ?thesis
        by (simp add: retrieve_context_store_fails)
    qed
  qed
  from bounded retrieve_context_succeeds retrieve_context_embedding_fails
    retrieve_context_store_fails
  show ?thesis
    by blast
qed


theorem retrieve_context_best_effort_witness:
  "embeddings_create sample_env (JStr ''skiing'') = Inr [1, 0]
   \<and> next_request_succeeds library_world
   \<and> fst (retrieve_context sample_env (JStr ''skiing'') 3 library_world)
       = Inr [''Skis'', ''Boots'', ''Poles'']
   \<and> next_request_fails store_down (External ''connection refused'')
   \<and> fst (retrieve_context sample_env (JStr ''skiing'') 3 store_down) = Inr []
   \<and> embeddings_create embeddings_down_env (JStr ''skiing'') = Inl (External ''rate limited'')
   \<and> retrieve_context embeddings_down_env (JStr ''skiing'') 3 library_world =
       (Inr [], library_world\<lparr>stdout := [RAGRetrievalError (External ''rate limited'')]\<rparr>)"
proof -
  have emb: "embeddings_create sample_env (JStr ''skiing'') = Inr [1, 0]"
    by (simp add: sample_env_def)
  have ok: "next_request_succeeds library_world"
    by (simp add: next_request_succeeds_def library_world_def quiet_world_def)
  have down: "next_request_fails store_down (External ''connection refused'')"
    by (simp add: next_request_fails_def store_down_def quiet_world_def)
  have ranked: "map doc_content (match_documents sample_env (documents library_world) [1, 0] (7 / 10) 3)
                  = [''Skis'', ''Boots'', ''Poles'']"
    by (simp add: match_documents_def library_world_def quiet_world_def sample_env_def
          sample_similarity_def)
  from retrieve_context_best_effort [of sample_env "JStr ''skiing''" 3 library_world] emb ok
  have "retrieve_context sample_env (JStr ''skiing'') 3 library_world =
          (Inr (map doc_content (match_documents sample_env (documents library_world) [1, 0] (7 / 10) 3)),
           after_request library_world)"
    by blast
  with ranked have one: "fst (retrieve_context sample_env (JStr ''skiing'') 3 library_world)
       = Inr [''Skis'', ''Boots'', ''Poles'']"
    by simp
  from retrieve_context_best_effort [of sample_env "JStr ''skiing''" 3 store_down] emb down
  have "retrieve_context sample_env (JStr ''skiing'') 3 store_down =
          (Inr [], (after_request store_down)
             \<lparr>stdout := stdout store_down @ [RAGRetrievalError (External ''connection refused'')]\<rparr>)"
    by blast
  then have two: "fst (retrieve_context sample_env (JStr ''skiing'') 3 store_down) = Inr []"
    by simp
  have no_emb: "embeddings_create embeddings_down_env (JStr ''skiing'')
      = Inl (External ''rate limited'')"
    by (simp add: embeddings_down_env_def sample_env_def)
  have out: "stdout library_world = []"
    by (simp add: library_world_def quiet_world_def)
  from retrieve_context_best_effort [of embeddings_down_env "JStr ''skiing''" 3 library_world]
    no_emb
  have "retrieve_context embeddings_down_env (JStr ''skiing'') 3 library_world =
       (Inr [], library_world\<lparr>stdout := stdout library_world
                                  @ [RAGRetrievalError (External ''rate limited'')]\<rparr>)"
    by blast
  with out have three: "retrieve_context embeddings_down_env (JStr ''skiing'') 3 library_world =
       (Inr [], library_world\<lparr>stdout := [RAGRetrievalError (External ''rate limited'')]\<rparr>)"
    by simp
  from emb ok one down two no_emb three show ?thesis
    by simp
qed

section \<open>Startup: when the documents are embedded\<close>

lemma is_initialized_eq:
  "is_initialized w = (Inr (next_request_succeeds w \<and> documents w \<noteq> []), after_request w)"
proof -
  from execute_cases [of w] show ?thesis
  proof
    assume ok: "next_request_succeeds w"
    then show ?thesis
      by (simp add: is_initialized_def select_documents_def execute_succeeds run_simps)
  next
    assume "\<exists>e. next_request_fails w e"
    then obtain e where e: "next_request_fails w e" ..
    then have "\<not> next_request_succeeds w"
      by (auto simp: next_request_fails_def next_request_succeeds_def split: list.splits)
    with e show ?thesis
      by (simp add: is_initialized_def select_documents_def execute_fails run_simps)
  qed
qed

lemma initialize_vector_database_eq:
  "initialize_vector_database env enabled r s w =
     (if enabled
      then (if next_request_succeeds w \<and> documents w \<noteq> []
            then print VectorDatabaseAlreadyInitialized (after_request w)
            else and_then (print InitializingVectorDatabase (after_request w))
                   (\<lambda>_ w2. embed_documents env r s w2))
      else print ReadyWithoutSupabase w)"
  by (simp add: initialize_vector_database_def is_initialized_eq and_then_Inr)

text \<open>
  C6, as the code has it. \<open>is_initialized\<close> never raises; it returns true exactly when
  its query succeeds and the documents table holds a record, and false when the query
  fails. The startup embeds the documents only when the store is enabled and
  \<open>is_initialized\<close> returned false. So, when the query of \<open>is_initialized\<close> succeeds,
  a table that is not empty is left as it is.
\<close>

theorem initialization_guard:
  "is_initialized w = (Inr (next_request_succeeds w \<and> documents w \<noteq> []), after_request w)
   \<and> initialize_vector_database env enabled r s w =
       (if enabled
        then (if next_request_succeeds w \<and> documents w \<noteq> []
              then print VectorDatabaseAlreadyInitialized (after_request w)
              else and_then (print InitializingVectorDatabase (after_request w))
                     (\<lambda>_ w2. embed_documents env r s w2))
        else print ReadyWithoutSupabase w)
   \<and> (next_request_succeeds w \<and> documents w \<noteq> [] \<longrightarrow>
        documents (snd (initialize_vector_database env enabled r s w)) = documents w)"
proof -
  have kept: "documents (snd (initialize_vector_database env enabled r s w)) = documents w"
    if "next_request_succeeds w \<and> documents w \<noteq> []"
    using that by (simp add: initialize_vector_database_eq print_def)
  from is_initialized_eq initialize_vector_database_eq kept show ?thesis
    by blast
qed

theorem initialization_guard_witness:
  "next_request_succeeds populated_world
   \<and> documents populated_world = [old_document]
   \<and> fst (is_initialized populated_world) = Inr True
   \<and> documents (snd (initialize_vector_database sample_env True (replicate 60 (CHR ''r''))
                        ''A short summary.'' populated_world)) = [old_document]"
proof -
  have ok: "next_request_succeeds populated_world"
    by (simp add: next_request_succeeds_def populated_world_def quiet_world_def)
  have docs: "documents populated_world = [old_document]"
    by (simp add: populated_world_def quiet_world_def)
  from initialization_guard [of populated_world sample_env True "replicate 60 (CHR ''r'')"
      "''A short summary.''"] ok docs
  show ?thesis
    by (simp add: print_def)
qed

text \<open>
  C6, as the claim states it, fails. The store holds a document, the connection test of
  the startup succeeds and the query of \<open>is_initialized\<close> times out: \<open>is_initialized\<close>
  returns false over a table that is not empty, and the startup embeds the resume into
  it again.
\<close>

theorem initialization_counterexample:
  "documents populated_flaky = [old_document]
   \<and> fst (is_initialized (after_request populated_flaky)) = Inr False
   \<and> map doc_content (documents (snd (chatbot_init sample_env populated_flaky)))
       = [''An old chunk'', replicate 60 (CHR ''r'')]"
  by code_simp

section \<open>Tool dispatcher\<close>

lemma record_user_details_returns:
  "\<exists>r w'. record_user_details env user_id email name_arg notes_arg w = (Inr r, w')"
proof -
  from execute_cases [of w] show ?thesis
  proof
    assume "next_request_succeeds w"
    then show ?thesis
      by (simp add: record_user_details_def insert_lead_def execute_succeeds run_simps Let_def)
  next
    assume "\<exists>e. next_request_fails w e"
    then obtain e where "next_request_fails w e" ..
    then show ?thesis
      by (simp add: record_user_details_def insert_lead_def execute_fails run_simps Let_def)
  qed
qed

lemma record_unknown_question_returns:
  "\<exists>r w'. record_unknown_question env q w = (Inr r, w')"
proof -
  from execute_cases [of w] show ?thesis
  proof
    assume "next_request_succeeds w"
    then show ?thesis
      by (simp add: record_unknown_question_def insert_unknown_question_def execute_succeeds
            run_simps)
  next
    assume "\<exists>e. next_request_fails w e"
    then obtain e where "next_request_fails w e" ..
    then show ?thesis
      by (simp add: record_unknown_question_def insert_unknown_question_def execute_fails
            run_simps)
  qed
qed

lemma call_record_user_details_binds:
  "binds_user_details arguments \<Longrightarrow>
     \<exists>r w'. call_record_user_details env user_id arguments w = (Inr r, w')"
  using record_user_details_returns
  by (cases arguments) (auto simp: binds_user_details_def call_record_user_details_def)

lemma call_record_user_details_rejects:
  "\<not> binds_user_details arguments \<Longrightarrow>
     call_record_user_details env user_id arguments w = (Inl TypeError, w)"
  by (cases arguments)
     (auto simp: binds_user_details_def call_record_user_details_def raise_def
           split: option.splits)

lemma call_record_unknown_question_binds:
  "binds_unknown_question arguments \<Longrightarrow>
     \<exists>r w'. call_record_unknown_question env arguments w = (Inr r, w')"
  using record_unknown_question_returns
  by (cases arguments) (auto simp: binds_unknown_question_def call_record_unknown_question_def)

lemma call_record_unknown_question_rejects:
  "\<not> binds_unknown_question arguments \<Longrightarrow>
     call_record_unknown_question env arguments w = (Inl TypeError, w)"
  by (cases arguments)
     (auto simp: binds_unknown_question_def call_record_unknown_question_def raise_def
           split: option.splits)

lemma dict_get_dict: "is_dict d \<Longrightarrow> \<exists>v. dict_get d key fallback w = (Inr v, w)"
  by (cases d) (auto simp: is_dict_def dict_get_def return_def)

lemma dict_get_rejects: "\<not> is_dict d \<Longrightarrow> dict_get d key fallback w = (Inl AttributeError, w)"
  by (cases d) (auto simp: is_dict_def dict_get_def raise_def)

lemma handle_tool_call_accepted:
  assumes "accepted env enabled tc"
  shows "\<exists>r w'. handle_tool_call env enabled user_id tc w = (Inr r, w')"
proof -
  from assms obtain arguments where loads: "json_loads env (tc_arguments tc) = Inr arguments"
    by (auto simp: accepted_def split: sum.splits)
  let ?w1 = "w\<lparr>stdout := stdout w @ [ToolCalled (tc_name tc)]\<rparr>"
  consider (lead) "tc_name tc = ''record_user_details''"
    | (question) "tc_name tc \<noteq> ''record_user_details''" "tc_name tc = ''record_unknown_question''"
    | (other) "tc_name tc \<noteq> ''record_user_details''" "tc_name tc \<noteq> ''record_unknown_question''"
    by blast
  then show ?thesis
  proof cases
    case lead
    show ?thesis
    proof (cases enabled)
      case True
      with assms loads lead have "binds_user_details arguments"
        by (simp add: accepted_def)
      from call_record_user_details_binds [OF this, of env user_id ?w1]
      show ?thesis
        using loads lead True by (simp add: handle_tool_call_def run_simps)
    next
      case False
      then show ?thesis
        using loads lead by (simp add: handle_tool_call_def run_simps)
    qed
  next
    case question
    show ?thesis
    proof (cases enabled)
      case True
      with assms loads question have "binds_unknown_question arguments"
        by (simp add: accepted_def)
      from call_record_unknown_question_binds [OF this, of env ?w1]
      show ?thesis
        using loads question True by (simp add: handle_tool_call_def run_simps)
    next
      case False
      with assms loads question have "is_dict arguments"
        by (simp add: accepted_def)
      from dict_get_dict [OF this, of "''question''" JNull ?w1]
      obtain v where "dict_get arguments ''question'' JNull ?w1 = (Inr v, ?w1)" ..
      then show ?thesis
        using loads question False by (simp add: handle_tool_call_def run_simps)
    qed
  next
    case other
    then show ?thesis
      using loads by (simp add: handle_tool_call_def run_simps)
  qed
qed

lemma handle_tool_call_rejected:
  assumes "\<not> accepted env enabled tc"
  shows "\<exists>e w'. handle_tool_call env enabled user_id tc w = (Inl e, w')"
proof (cases "json_loads env (tc_arguments tc)")
  case (Inl e)
  then show ?thesis
    by (simp add: handle_tool_call_def run_simps)
next
  case (Inr arguments)
  let ?w1 = "w\<lparr>stdout := stdout w @ [ToolCalled (tc_name tc)]\<rparr>"
  from assms Inr consider
      (lead) "tc_name tc = ''record_user_details''" "enabled" "\<not> binds_user_details arguments"
    | (question) "tc_name tc \<noteq> ''record_user_details''" "tc_name tc = ''record_unknown_question''"
        "enabled" "\<not> binds_unknown_question arguments"
    | (local) "tc_name tc \<noteq> ''record_user_details''" "tc_name tc = ''record_unknown_question''"
        "\<not> enabled" "\<not> is_dict arguments"
    by (auto simp: accepted_def split: if_splits)
  then show ?thesis
  proof cases
    case lead
    then show ?thesis
      using Inr by (simp add: handle_tool_call_def run_simps call_record_user_details_rejects)
  next
    case question
    then show ?thesis
      using Inr by (simp add: handle_tool_call_def run_simps call_record_unknown_question_rejects)
  next
    case local
    then show ?thesis
      using Inr by (simp add: handle_tool_call_def run_simps dict_get_rejects)
  qed
qed

lemma handle_tool_call_unknown:
  assumes "accepted env enabled tc"
    and "tc_name tc \<noteq> ''record_user_details''" and "tc_name tc \<noteq> ''record_unknown_question''"
  shows "handle_tool_call env enabled user_id tc w =
           (Inr (JObj [(''error'', JStr ''Unknown tool'')]),
            w\<lparr>stdout := stdout w @ [ToolCalled (tc_name tc)]\<rparr>)"
proof -
  from assms(1) obtain arguments where "json_loads env (tc_arguments tc) = Inr arguments"
    by (auto simp: accepted_def split: sum.splits)
  with assms(2,3) show ?thesis
    by (simp add: handle_tool_call_def run_simps)
qed

lemma handle_tool_calls_loop_acc:
  "handle_tool_calls_loop env enabled user_id calls results w =
     (case handle_tool_calls_loop env enabled user_id calls [] w of
        (Inl e, w') \<Rightarrow> (Inl e, w')
      | (Inr envs, w') \<Rightarrow> (Inr (results @ envs), w'))"
proof (induction calls arbitrary: results w)
  case Nil
  show ?case by (simp add: return_def)
next
  case (Cons tc rest)
  show ?case
  proof (cases "handle_tool_call env enabled user_id tc w")
    case (Pair outcome w1)
    show ?thesis
    proof (cases outcome)
      case (Inl e)
      with Pair show ?thesis by (simp add: run_simps)
    next
      case (Inr result)
      with Pair show ?thesis
        by (simp add: run_simps Cons.IH [of "results @ [envelope env tc result]"]
              Cons.IH [of "[envelope env tc result]"] split: prod.splits sum.splits)
    qed
  qed
qed

lemma handle_tool_calls_Nil: "handle_tool_calls env enabled [] user_id w = (Inr [], w)"
  by (simp add: handle_tool_calls_def return_def)

lemma handle_tool_calls_Cons:
  "handle_tool_calls env enabled (tc # rest) user_id w =
     (case handle_tool_call env enabled user_id tc w of
        (Inl e, w1) \<Rightarrow> (Inl e, w1)
      | (Inr result, w1) \<Rightarrow>
          (case handle_tool_calls env enabled rest user_id w1 of
             (Inl e, w2) \<Rightarrow> (Inl e, w2)
           | (Inr envs, w2) \<Rightarrow> (Inr (envelope env tc result # envs), w2)))"
proof (cases "handle_tool_call env enabled user_id tc w")
  case (Pair outcome w1)
  show ?thesis
  proof (cases outcome)
    case (Inl e)
    with Pair show ?thesis by (simp add: handle_tool_calls_def run_simps)
  next
    case (Inr result)
    with Pair show ?thesis
      by (simp add: handle_tool_calls_def run_simps
            handle_tool_calls_loop_acc [of _ _ _ _ "[envelope env tc result]"]
            split: prod.splits sum.splits)
  qed
qed

lemma handle_tool_calls_accepted:
  "list_all (accepted env enabled) calls \<Longrightarrow>
     (\<exists>w'. handle_tool_calls env enabled calls user_id w =
              (Inr (map2 (envelope env) calls (handler_results env enabled user_id calls w)), w'))
     \<and> length (handler_results env enabled user_id calls w) = length calls"
proof (induction calls arbitrary: w)
  case Nil
  show ?case by (simp add: handle_tool_calls_Nil)
next
  case (Cons tc rest)
  then have tc: "accepted env enabled tc" and rest: "list_all (accepted env enabled) rest"
    by simp_all
  from handle_tool_call_accepted [OF tc, of user_id w]
  obtain r w1 where r: "handle_tool_call env enabled user_id tc w = (Inr r, w1)"
    by blast
  from Cons.IH [OF rest, of w1] obtain w2 where
    envs: "handle_tool_calls env enabled rest user_id w1 =
             (Inr (map2 (envelope env) rest (handler_results env enabled user_id rest w1)), w2)"
    and len: "length (handler_results env enabled user_id rest w1) = length rest"
    by blast
  from r envs len show ?case
    by (simp add: handle_tool_calls_Cons)
qed

lemma handle_tool_calls_rejected:
  "\<not> list_all (accepted env enabled) calls \<Longrightarrow>
     \<exists>e w'. handle_tool_calls env enabled calls user_id w = (Inl e, w')"
proof (induction calls arbitrary: w)
  case Nil
  then show ?case by simp
next
  case (Cons tc rest)
  show ?case
  proof (cases "accepted env enabled tc")
    case False
    from handle_tool_call_rejected [OF this, of user_id w] show ?thesis
      by (auto simp: handle_tool_calls_Cons)
  next
    case True
    with Cons.prems have rest: "\<not> list_all (accepted env enabled) rest"
      by simp
    from handle_tool_call_accepted [OF True, of user_id w]
    obtain r w1 where r: "handle_tool_call env enabled user_id tc w = (Inr r, w1)"
      by blast
    from Cons.IH [OF rest, of w1] r show ?thesis
      by (auto simp: handle_tool_calls_Cons)
  qed
qed

lemma handler_results_unknown:
  "list_all (accepted env enabled) calls \<Longrightarrow> i < length calls \<Longrightarrow>
   tc_name (calls ! i) \<noteq> ''record_user_details'' \<Longrightarrow>
   tc_name (calls ! i) \<noteq> ''record_unknown_question'' \<Longrightarrow>
     handler_results env enabled user_id calls w ! i = JObj [(''error'', JStr ''Unknown tool'')]"
proof (induction calls arbitrary: w i)
  case Nil
  then show ?case by simp
next
  case (Cons tc rest)
  then have tc: "accepted env enabled tc" and rest: "list_all (accepted env enabled) rest"
    by simp_all
  from handle_tool_call_accepted [OF tc, of user_id w]
  obtain r w1 where r: "handle_tool_call env enabled user_id tc w = (Inr r, w1)"
    by blast
  show ?case
  proof (cases i)
    case 0
    with Cons.prems have "tc_name tc \<noteq> ''record_user_details''"
      and "tc_name tc \<noteq> ''record_unknown_question''"
      by simp_all
    from handle_tool_call_unknown [OF tc this, of user_id w] 0 show ?thesis
      by simp
  next
    case (Suc j)
    with Cons.prems have "j < length rest"
      and "tc_name (rest ! j) \<noteq> ''record_user_details''"
      and "tc_name (rest ! j) \<noteq> ''record_unknown_question''"
      by simp_all
    from Cons.IH [OF rest this, of w1] r Suc show ?thesis
      by simp
  qed
qed

text \<open>
  C5, as the code has it. When every call of the batch is accepted (its payload is JSON
  and its arguments fit the handler its name selects), the dispatcher returns one
  envelope for each call, in the order of the calls: role \<open>tool\<close>, the serialized
  result of the handler as content, the id of the call as \<open>tool_call_id\<close>; and the
  result for a name that is neither \<open>record_user_details\<close> nor
  \<open>record_unknown_question\<close> is \<open>{"error": "Unknown tool"}\<close>. When some call is not
  accepted, the dispatcher raises and the batch has no result.
\<close>

theorem dispatcher_results:
  "(list_all (accepted env enabled) calls \<longrightarrow>
      (\<exists>results w'.
          handle_tool_calls env enabled calls user_id w = (Inr results, w')
          \<and> length results = length calls
          \<and> (\<forall>i<length calls.
                results ! i =
                  Dict (JObj [(''role'', JStr ''tool''),
                              (''content'',
                               JStr (json_dumps env
                                       (handler_results env enabled user_id calls w ! i))),
                              (''tool_call_id'', JStr (tc_id (calls ! i)))])
                \<and> (tc_name (calls ! i) \<noteq> ''record_user_details''
                     \<and> tc_name (calls ! i) \<noteq> ''record_unknown_question'' \<longrightarrow>
                     handler_results env enabled user_id calls w ! i =
                       JObj [(''error'', JStr ''Unknown tool'')]))))
   \<and> (\<not> list_all (accepted env enabled) calls \<longrightarrow>
        (\<exists>e w'. handle_tool_calls env enabled calls user_id w = (Inl e, w')))"
proof (intro conjI impI)
  assume ok: "list_all (accepted env enabled) calls"
  let ?rs = "handler_results env enabled user_id calls w"
  from handle_tool_calls_accepted [OF ok, of user_id w] obtain w' where
    run: "handle_tool_calls env enabled calls user_id w = (Inr (map2 (envelope env) calls ?rs), w')"
    and len: "length ?rs = length calls"
    by blast
  have shape: "map2 (envelope env) calls ?rs ! i =
      Dict (JObj [(''role'', JStr ''tool''),
                  (''content'', JStr (json_dumps env (?rs ! i))),
                  (''tool_call_id'', JStr (tc_id (calls ! i)))])"
    if "i < length calls" for i
    using that len by (simp add: envelope_def)
  have unknown: "?rs ! i = JObj [(''error'', JStr ''Unknown tool'')]"
    if "i < length calls" "tc_name (calls ! i) \<noteq> ''record_user_details''"
      "tc_name (calls ! i) \<noteq> ''record_unknown_question''" for i
    using handler_results_unknown [OF ok that] .
  from run len shape unknown
  show "\<exists>results w'.
          handle_tool_calls env enabled calls user_id w = (Inr results, w')
          \<and> length results = length calls
          \<and> (\<forall>i<length calls.
                results ! i =
                  Dict (JObj [(''role'', JStr ''tool''),
                              (''content'', JStr (json_dumps env (?rs ! i))),
                              (''tool_call_id'', JStr (tc_id (calls ! i)))])
                \<and> (tc_name (calls ! i) \<noteq> ''record_user_details''
                     \<and> tc_name (calls ! i) \<noteq> ''record_unknown_question'' \<longrightarrow>
                     ?rs ! i = JObj [(''error'', JStr ''Unknown tool'')]))"
    by (intro exI [of _ "map2 (envelope env) calls ?rs"] exI [of _ w']) simp
next
  assume "\<not> list_all (accepted env enabled) calls"
  then show "\<exists>e w'. handle_tool_calls env enabled calls user_id w = (Inl e, w')"
    by (rule handle_tool_calls_rejected)
qed

theorem dispatcher_results_witness:
  "list_all (accepted sample_env False) [question_call, weather_call]
   \<and> (\<exists>results w'.
         handle_tool_calls sample_env False [question_call, weather_call] (JStr ''visitor'')
           quiet_world = (Inr results, w')
         \<and> length results = 2
         \<and> results ! 0 =
             Dict (JObj [(''role'', JStr ''tool''),
                         (''content'', JStr (json_dumps sample_env logged_locally)),
                         (''tool_call_id'', JStr ''call_1'')])
         \<and> results ! 1 =
             Dict (JObj [(''role'', JStr ''tool''),
                         (''content'',
                          JStr (json_dumps sample_env (JObj [(''error'', JStr ''Unknown tool'')]))),
                         (''tool_call_id'', JStr ''call_2'')]))
   \<and> \<not> list_all (accepted sample_env False) [garbled_call]
   \<and> (\<exists>e w'. handle_tool_calls sample_env False [garbled_call] (JStr ''visitor'') quiet_world
                = (Inl e, w'))"
proof -
  let ?calls = "[question_call, weather_call]"
  have ok: "list_all (accepted sample_env False) ?calls"
    by code_simp
  have rs: "handler_results sample_env False (JStr ''visitor'') ?calls quiet_world =
              [logged_locally, JObj [(''error'', JStr ''Unknown tool'')]]"
    by code_simp
  have ids: "tc_id question_call = ''call_1''" "tc_id weather_call = ''call_2''"
    by (simp_all add: question_call_def weather_call_def)
  have bad: "\<not> list_all (accepted sample_env False) [garbled_call]"
    by code_simp
  from dispatcher_results [of sample_env False ?calls "JStr ''visitor''" quiet_world] ok
  obtain results w' where
    run: "handle_tool_calls sample_env False ?calls (JStr ''visitor'') quiet_world = (Inr results, w')"
    and len: "length results = length ?calls"
    and each: "\<forall>i<length ?calls.
        results ! i =
          Dict (JObj [(''role'', JStr ''tool''),
                      (''content'',
                       JStr (json_dumps sample_env
                               (handler_results sample_env False (JStr ''visitor'') ?calls
                                  quiet_world ! i))),
                      (''tool_call_id'', JStr (tc_id (?calls ! i)))])"
    by blast
  note each' = each [unfolded rs]
  from each' have first: "results ! 0 =
      Dict (JObj [(''role'', JStr ''tool''),
                  (''content'', JStr (json_dumps sample_env logged_locally)),
                  (''tool_call_id'', JStr ''call_1'')])"
    by (simp add: ids)
  from each' have second: "results ! 1 =
      Dict (JObj [(''role'', JStr ''tool''),
                  (''content'', JStr (json_dumps sample_env (JObj [(''error'', JStr ''Unknown tool'')]))),
                  (''tool_call_id'', JStr ''call_2'')])"
    by (simp add: ids)
  from dispatcher_results [of sample_env False "[garbled_call]" "JStr ''visitor''" quiet_world] bad
  have raised: "\<exists>e w'. handle_tool_calls sample_env False [garbled_call] (JStr ''visitor'')
                          quiet_world = (Inl e, w')"
    by blast
  from run len first second have "\<exists>results w'.
         handle_tool_calls sample_env False ?calls (JStr ''visitor'') quiet_world = (Inr results, w')
         \<and> length results = 2
         \<and> results ! 0 =
             Dict (JObj [(''role'', JStr ''tool''),
                         (''content'', JStr (json_dumps sample_env logged_locally)),
                         (''tool_call_id'', JStr ''call_1'')])
         \<and> results ! 1 =
             Dict (JObj [(''role'', JStr ''tool''),
                         (''content'',
                          JStr (json_dumps sample_env (JObj [(''error'', JStr ''Unknown tool'')]))),
                         (''tool_call_id'', JStr ''call_2'')])"
    by simp
  with ok bad raised show ?thesis
    by blast
qed

text \<open>
  C5, as the claim states it, fails on two batches of one call. A call to an unknown
  tool whose payload is not JSON: \<open>json.loads\<close> raises before the name is looked at.
  With the store enabled, a call to \<open>record_user_details\<close> with the payload \<open>{}\<close>:
  the call lacks \<open>email\<close> and raises \<open>TypeError\<close>. In both the batch has no envelope.
\<close>

theorem dispatcher_counterexample:
  "handle_tool_calls sample_env False [garbled_call] (JStr ''visitor'') quiet_world
     = (Inl (External ''Expecting value: line 1 column 1 (char 0)''), quiet_world)
   \<and> fst (handle_tool_calls sample_env True [lead_call_without_email] (JStr ''visitor'')
             quiet_world) = Inl TypeError"
  by code_simp

section \<open>Chat orchestrator: the tool-calling loop\<close>

lemma chat_rounds_imp_chat_loop:
  "chat_rounds n env enabled user_id messages w = Some res \<Longrightarrow>
     chat_loop env enabled user_id messages w = Some res"
proof (induction n arbitrary: messages w)
  case 0
  then show ?case by simp
next
  case (Suc n)
  show ?case
  proof (cases "completions_create env messages")
    case (Inl e)
    with Suc.prems show ?thesis
      by (subst chat_loop.simps) simp
  next
    case (Inr response)
    show ?thesis
    proof (cases "finish_reason response = ''tool_calls''")
      case False
      with Inr Suc.prems show ?thesis
        by (subst chat_loop.simps) simp
    next
      case True
      obtain outcome w1 where h: "handle_tool_calls env enabled
          (tool_calls (choice_message response)) user_id w = (outcome, w1)"
        by (cases "handle_tool_calls env enabled (tool_calls (choice_message response)) user_id w")
      show ?thesis
      proof (cases outcome)
        case (Inl e)
        with Inr True h Suc.prems show ?thesis
          by (subst chat_loop.simps) (simp add: Let_def)
      next
        case (Inr results)
        with \<open>completions_create env messages = Inr response\<close> True h Suc.prems
        have "chat_rounds n env enabled user_id
                (messages @ [MessageObj (choice_message response)] @ results) w1 = Some res"
          by (simp add: Let_def)
        from Suc.IH [OF this] \<open>completions_create env messages = Inr response\<close> True h Inr
        show ?thesis
          by (subst chat_loop.simps) (simp add: Let_def)
      qed
    qed
  qed
qed

lemma chat_loop_imp_chat_rounds:
  assumes "chat_loop env enabled user_id messages w = Some res"
  shows "\<exists>n. chat_rounds n env enabled user_id messages w = Some res"
proof (rule chat_loop.raw_induct
    [where P = "\<lambda>env enabled user_id messages w res.
                  \<exists>n. chat_rounds n env enabled user_id messages w = Some res",
     OF _ assms])
  fix loop :: "env \<Rightarrow> bool \<Rightarrow> json \<Rightarrow> chat_item list \<Rightarrow> world \<Rightarrow> completion result option"
  fix env enabled user_id messages w res
  assume IH: "\<And>env enabled user_id messages w res.
      loop env enabled user_id messages w = Some res \<Longrightarrow>
      \<exists>n. chat_rounds n env enabled user_id messages w = Some res"
  assume step:
    "(case completions_create env messages of
        Inl e \<Rightarrow> Some (raise e w)
      | Inr response \<Rightarrow>
          if finish_reason response = ''tool_calls'' then
            (let message_obj = choice_message response
             in case handle_tool_calls env enabled (tool_calls message_obj) user_id w of
                  (Inl e, w1) \<Rightarrow> Some (Inl e, w1)
                | (Inr tool_results, w1) \<Rightarrow>
                    loop env enabled user_id
                      (messages @ [MessageObj message_obj] @ tool_results) w1)
          else Some (return response w)) = Some res"
  show "\<exists>n. chat_rounds n env enabled user_id messages w = Some res"
  proof (cases "completions_create env messages")
    case (Inl e)
    with step have "chat_rounds (Suc 0) env enabled user_id messages w = Some res"
      by simp
    then show ?thesis ..
  next
    case (Inr response)
    note completion = this
    show ?thesis
    proof (cases "finish_reason response = ''tool_calls''")
      case False
      with completion step have "chat_rounds (Suc 0) env enabled user_id messages w = Some res"
        by simp
      then show ?thesis ..
    next
      case True
      obtain outcome w1 where h: "handle_tool_calls env enabled
          (tool_calls (choice_message response)) user_id w = (outcome, w1)"
        by (cases "handle_tool_calls env enabled (tool_calls (choice_message response)) user_id w")
      show ?thesis
      proof (cases outcome)
        case (Inl e)
        with completion True h step
        have "chat_rounds (Suc 0) env enabled user_id messages w = Some res"
          by (simp add: Let_def)
        then show ?thesis ..
      next
        case (Inr results)
        with completion True h step
        have "loop env enabled user_id
                (messages @ [MessageObj (choice_message response)] @ results) w1 = Some res"
          by (simp add: Let_def)
        from IH [OF this] obtain n where
          "chat_rounds n env enabled user_id
             (messages @ [MessageObj (choice_message response)] @ results) w1 = Some res" ..
        with completion True h Inr
        have "chat_rounds (Suc n) env enabled user_id messages w = Some res"
          by (simp add: Let_def)
        then show ?thesis ..
      qed
    qed
  qed
qed

lemma chat_rounds_never:
  assumes "\<forall>messages. \<exists>response. completions_create env messages = Inr response
             \<and> finish_reason response = ''tool_calls''
             \<and> list_all (accepted env enabled) (tool_calls (choice_message response))"
  shows "chat_rounds n env enabled user_id messages w = None"
proof (induction n arbitrary: messages w)
  case 0
  show ?case by simp
next
  case (Suc n)
  from assms obtain response where r: "completions_create env messages = Inr response"
    "finish_reason response = ''tool_calls''"
    "list_all (accepted env enabled) (tool_calls (choice_message response))"
    by blast
  from handle_tool_calls_accepted [OF r(3), of user_id w] obtain results w1 where
    "handle_tool_calls env enabled (tool_calls (choice_message response)) user_id w
       = (Inr results, w1)"
    by blast
  with r Suc.IH show ?case
    by (simp add: Let_def)
qed

lemma chat_loop_never:
  assumes "\<forall>messages. \<exists>response. completions_create env messages = Inr response
             \<and> finish_reason response = ''tool_calls''
             \<and> list_all (accepted env enabled) (tool_calls (choice_message response))"
  shows "chat_loop env enabled user_id messages w = None"
proof (cases "chat_loop env enabled user_id messages w")
  case None
  then show ?thesis .
next
  case (Some res)
  from chat_loop_imp_chat_rounds [OF this] obtain n where
    "chat_rounds n env enabled user_id messages w = Some res" ..
  with chat_rounds_never [OF assms, of n user_id messages w] show ?thesis
    by simp
qed

text \<open>
  C2, as the code has it. A completion that does not signal tool-call intent ends the
  loop in that round. The loop returns exactly when it returns within some finite number
  of completions, and the source sets no bound on that number: when the model signals
  tool-call intent on every completion, with calls the dispatcher accepts, the loop never
  returns.
\<close>

theorem chat_loop_termination:
  "(\<forall>response. completions_create env messages = Inr response
        \<and> finish_reason response \<noteq> ''tool_calls'' \<longrightarrow>
        chat_loop env enabled user_id messages w = Some (Inr response, w))
   \<and> (chat_loop env enabled user_id messages w = Some res
        \<longleftrightarrow> (\<exists>n. chat_rounds n env enabled user_id messages w = Some res))
   \<and> ((\<forall>messages. \<exists>response. completions_create env messages = Inr response
          \<and> finish_reason response = ''tool_calls''
          \<and> list_all (accepted env enabled) (tool_calls (choice_message response))) \<longrightarrow>
        chat_loop env enabled user_id messages w = None)"
proof (intro conjI allI impI)
  fix response
  assume "completions_create env messages = Inr response
            \<and> finish_reason response \<noteq> ''tool_calls''"
  then show "chat_loop env enabled user_id messages w = Some (Inr response, w)"
    by (subst chat_loop.simps) (simp add: return_def)
next
  show "chat_loop env enabled user_id messages w = Some res
          \<longleftrightarrow> (\<exists>n. chat_rounds n env enabled user_id messages w = Some res)"
    using chat_loop_imp_chat_rounds chat_rounds_imp_chat_loop by blast
next
  assume "\<forall>messages. \<exists>response. completions_create env messages = Inr response
            \<and> finish_reason response = ''tool_calls''
            \<and> list_all (accepted env enabled) (tool_calls (choice_message response))"
  then show "chat_loop env enabled user_id messages w = None"
    by (rule chat_loop_never)
qed

lemma tool_forever_env_requests:
  "\<forall>messages. \<exists>response. completions_create tool_forever_env messages = Inr response
     \<and> finish_reason response = ''tool_calls''
     \<and> list_all (accepted tool_forever_env False) (tool_calls (choice_message response))"
proof -
  have "list_all (accepted tool_forever_env False) [question_call]"
    by code_simp
  then show ?thesis
    by (simp add: tool_forever_env_def always_requests_tools_def)
qed

theorem chat_loop_termination_witness:
  "chat_rounds 1 tool_once_env False (JStr ''visitor'') first_messages quiet_world = None
   \<and> (\<exists>w'. chat_loop tool_once_env False (JStr ''visitor'') first_messages quiet_world =
               Some (Inr \<lparr>finish_reason = ''stop'',
                          choice_message =
                            \<lparr>msg_content = Some ''I do not know.'', tool_calls = []\<rparr>\<rparr>, w'))
   \<and> chat_loop tool_forever_env False (JStr ''visitor'') first_messages quiet_world = None
   \<and> chat_loop sample_env False (JStr ''visitor'') first_messages quiet_world =
       Some (Inr \<lparr>finish_reason = ''stop'',
                  choice_message = \<lparr>msg_content = Some ''Hello!'', tool_calls = []\<rparr>\<rparr>,
             quiet_world)"
proof -
  have one: "chat_rounds 1 tool_once_env False (JStr ''visitor'') first_messages quiet_world = None"
    by code_simp
  have "fst (the (chat_rounds 2 tool_once_env False (JStr ''visitor'') first_messages quiet_world))
          = Inr \<lparr>finish_reason = ''stop'',
                 choice_message = \<lparr>msg_content = Some ''I do not know.'', tool_calls = []\<rparr>\<rparr>"
    and "chat_rounds 2 tool_once_env False (JStr ''visitor'') first_messages quiet_world \<noteq> None"
    by code_simp+
  then obtain w' where "chat_rounds 2 tool_once_env False (JStr ''visitor'') first_messages
      quiet_world = Some (Inr \<lparr>finish_reason = ''stop'',
                 choice_message = \<lparr>msg_content = Some ''I do not know.'', tool_calls = []\<rparr>\<rparr>, w')"
    by (cases "chat_rounds 2 tool_once_env False (JStr ''visitor'') first_messages quiet_world")
       (auto simp: fst_def split: prod.splits)
  with chat_loop_termination [of tool_once_env first_messages False "JStr ''visitor''" quiet_world]
  have two: "\<exists>w'. chat_loop tool_once_env False (JStr ''visitor'') first_messages quiet_world =
               Some (Inr \<lparr>finish_reason = ''stop'',
                          choice_message =
                            \<lparr>msg_content = Some ''I do not know.'', tool_calls = []\<rparr>\<rparr>, w')"
    by blast
  from chat_loop_termination [of tool_forever_env first_messages False "JStr ''visitor''"
      quiet_world] tool_forever_env_requests
  have three: "chat_loop tool_forever_env False (JStr ''visitor'') first_messages quiet_world = None"
    by blast
  have "completions_create sample_env first_messages =
          Inr \<lparr>finish_reason = ''stop'',
               choice_message = \<lparr>msg_content = Some ''Hello!'', tool_calls = []\<rparr>\<rparr>"
    by (simp add: sample_env_def answers_directly_def)
  with chat_loop_termination [of sample_env first_messages False "JStr ''visitor''" quiet_world]
  have four: "chat_loop sample_env False (JStr ''visitor'') first_messages quiet_world =
       Some (Inr \<lparr>finish_reason = ''stop'',
                  choice_message = \<lparr>msg_content = Some ''Hello!'', tool_calls = []\<rparr>\<rparr>,
             quiet_world)"
    by simp
  from one two three four show ?thesis
    by blast
qed

text \<open>
  C2, as the claim states it, fails: with the store disabled and a model that asks for
  \<open>record_unknown_question\<close> on every completion, \<open>chat\<close> never returns.
\<close>

theorem chat_unbounded_counterexample:
  "chat tool_forever_env sample_bot (JStr ''Do you ski?'') (JArr []) (JStr ''visitor'')
     quiet_world = None"
proof -
  have off: "supabase_enabled sample_bot = False"
    by (simp add: sample_bot_def)
  show ?thesis
    by (simp add: chat_def off iterate_def return_def
          chat_loop_never [OF tool_forever_env_requests])
qed

section \<open>The route\<close>

lemma chat_route_try_dict:
  "request_json req = Inr (JObj items) \<Longrightarrow>
     chat_route_try env self req w =
       (let msg = (case map_of items ''message'' of None \<Rightarrow> JStr [] | Some v \<Rightarrow> v);
            history = (case map_of items ''history'' of None \<Rightarrow> JArr [] | Some v \<Rightarrow> v);
            user_id = (case map_of items ''user_id'' of None \<Rightarrow> JStr ''anonymous'' | Some v \<Rightarrow> v)
        in if \<not> truthy msg
           then Some (Inr \<lparr>status = 400, body = JObj [(''error'', JStr ''Message is required'')]\<rparr>, w)
           else (case chat env self msg history user_id w of
                   None \<Rightarrow> None
                 | Some (Inl e, w2) \<Rightarrow> Some (Inl e, w2)
                 | Some (Inr response, w2) \<Rightarrow>
                     Some (Inr \<lparr>status = 200,
                                body = JObj [(''response'',
                                              (case response of
                                                 None \<Rightarrow> JNull
                                               | Some answer \<Rightarrow> JStr answer)),
                                             (''success'', JBool True)]\<rparr>, w2)))"
  by (simp add: chat_route_try_def dict_get_def run_simps Let_def
        split: option.splits prod.splits sum.splits)

lemma chat_route_missing_message:
  assumes "request_json req = Inr (JObj items)" and "map_of items ''message'' = None"
  shows "chat_route env self req w =
           Some (Inr \<lparr>status = 400, body = JObj [(''error'', JStr ''Message is required'')]\<rparr>, w)"
  using assms by (simp add: chat_route_def chat_route_try_dict run_simps)

lemma chat_route_falsy_message:
  assumes "request_json req = Inr (JObj items)" and "map_of items ''message'' = Some msg"
    and "\<not> truthy msg"
  shows "chat_route env self req w =
           Some (Inr \<lparr>status = 400, body = JObj [(''error'', JStr ''Message is required'')]\<rparr>, w)"
  using assms by (simp add: chat_route_def chat_route_try_dict run_simps)








text \<open>
  C10. A body whose \<open>message\<close> is the empty string is answered like a body without
  \<open>message\<close>: 400 and \<open>{"error": "Message is required"}\<close>. The answer is the same
  whatever the model and the provider would do, and the world is left as it was: no
  completion is asked for, nothing is sent to the store, nothing is printed.
\<close>

theorem chat_route_empty_message:
  "request_json req = Inr (JObj items) \<and> map_of items ''message'' = Some (JStr '''') \<longrightarrow>
     chat_route env self req w =
       Some (Inr \<lparr>status = 400, body = JObj [(''error'', JStr ''Message is required'')]\<rparr>, w)"
  using chat_route_falsy_message [of req items "JStr ''''" env self w]
  by simp

theorem chat_route_empty_message_witness:
  "chat tool_forever_env sample_bot (JStr '''') (JArr []) (JStr ''anonymous'') quiet_world = None
   \<and> chat_route tool_forever_env sample_bot empty_message_request quiet_world =
       Some (Inr \<lparr>status = 400, body = JObj [(''error'', JStr ''Message is required'')]\<rparr>,
             quiet_world)
   \<and> chat_route sample_env sample_bot empty_message_request quiet_world =
       chat_route sample_env sample_bot empty_body_request quiet_world"
proof -
  have off: "supabase_enabled sample_bot = False"
    by (simp add: sample_bot_def)
  have never: "chat tool_forever_env sample_bot (JStr '''') (JArr []) (JStr ''anonymous'')
      quiet_world = None"
    by (simp add: chat_def off iterate_def return_def
          chat_loop_never [OF tool_forever_env_requests])
  have a: "chat_route tool_forever_env sample_bot empty_message_request quiet_world =
       Some (Inr \<lparr>status = 400, body = JObj [(''error'', JStr ''Message is required'')]\<rparr>,
             quiet_world)"
    using chat_route_empty_message [of empty_message_request "[(''message'', JStr '''')]"
        tool_forever_env sample_bot quiet_world]
    by (simp add: empty_message_request_def)
  have b: "chat_route sample_env sample_bot empty_message_request quiet_world =
       Some (Inr \<lparr>status = 400, body = JObj [(''error'', JStr ''Message is required'')]\<rparr>,
             quiet_world)"
    using chat_route_empty_message [of empty_message_request "[(''message'', JStr '''')]"
        sample_env sample_bot quiet_world]
    by (simp add: empty_message_request_def)
  have c: "chat_route sample_env sample_bot empty_body_request quiet_world =
       Some (Inr \<lparr>status = 400, body = JObj [(''error'', JStr ''Message is required'')]\<rparr>,
             quiet_world)"
    by (simp add: chat_route_missing_message [of _ "[]"] empty_body_request_def)
  from never a b c show ?thesis
    by simp
qed

end
